theory Spec2Isabelle
  imports Complex_Main
begin

section \<open>The simulation engine (class FlappyKiroGame)\<close>

text \<open>
  A finite JavaScript number is modelled as a real number: the physics constants 0.3, 0.4 and
  0.5 are the rationals 3/10, 4/10 and 5/10, and arithmetic on numbers is exact. The values
  \<open>undefined\<close> and \<open>NaN\<close> are values of their own, because the engine can hold them: a
  property that an object lacks reads as \<open>undefined\<close>, arithmetic with \<open>undefined\<close> or \<open>NaN\<close>
  gives \<open>NaN\<close>, and every comparison with either is false. The dimensions of the canvas and
  the constants that \<open>reset\<close> and \<open>generateWall\<close> write are always numbers and are kept as
  reals. The score, which only ever counts up from 0, is a natural number. \<open>Math.random()\<close>
  is an input of the functions that reach it (the parameter \<open>r\<close>).

  The fields of the JavaScript objects keep their names, with a prefix where two objects share
  a field name: \<open>gx, gy, gwidth, gheight\<close> are \<open>ghosty.x, ghosty.y, ghosty.width,
  ghosty.height\<close>, and \<open>wx, wwidth\<close> are \<open>wall.x, wall.width\<close>.
\<close>

datatype jsval = Undefined | NaN | Num real

text \<open>The operators \<open>+\<close>, \<open>-\<close>, \<open>*\<close> and \<open><\<close>, \<open><=\<close>, \<open>>\<close>, \<open>>=\<close> on these values.\<close>

fun js_add :: "jsval \<Rightarrow> jsval \<Rightarrow> jsval" where
  "js_add (Num a) (Num b) = Num (a + b)"
| "js_add a b = NaN"

fun js_sub :: "jsval \<Rightarrow> jsval \<Rightarrow> jsval" where
  "js_sub (Num a) (Num b) = Num (a - b)"
| "js_sub a b = NaN"

fun js_mul :: "jsval \<Rightarrow> jsval \<Rightarrow> jsval" where
  "js_mul (Num a) (Num b) = Num (a * b)"
| "js_mul a b = NaN"

fun js_lt :: "jsval \<Rightarrow> jsval \<Rightarrow> bool" where
  "js_lt (Num a) (Num b) = (a < b)"
| "js_lt a b = False"

fun js_le :: "jsval \<Rightarrow> jsval \<Rightarrow> bool" where
  "js_le (Num a) (Num b) = (a \<le> b)"
| "js_le a b = False"

fun js_gt :: "jsval \<Rightarrow> jsval \<Rightarrow> bool" where
  "js_gt (Num a) (Num b) = (a > b)"
| "js_gt a b = False"

fun js_ge :: "jsval \<Rightarrow> jsval \<Rightarrow> bool" where
  "js_ge (Num a) (Num b) = (a \<ge> b)"
| "js_ge a b = False"

text \<open>
  The value of \<open>this.config\<close>, as far as the engine reads it: its properties \<open>gravity\<close>,
  \<open>jumpStrength\<close>, \<open>wallSpeed\<close>, \<open>gapSize\<close> and \<open>wallSpacing\<close>, each \<open>undefined\<close> when the
  object has no such property.
\<close>

record profile =
  gravity :: jsval
  jumpStrength :: jsval
  wallSpeed :: jsval
  gapSize :: jsval
  wallSpacing :: jsval

record ghosty_t =
  gx :: real
  gy :: jsval
  gwidth :: real
  gheight :: real
  velocity :: jsval

record wall =
  wx :: jsval
  topHeight :: jsval
  bottomY :: jsval
  bottomHeight :: jsval
  wwidth :: real
  scored :: bool

text \<open>
  What the engine does to its collaborators (the global \<open>telemetry\<close> object and the
  \<open>document\<close>), one constructor per call site of the source.
\<close>

datatype effect =
    DifficultySet string
  | GameStarted "string option"
  | GameEnded nat "string option"
  | GhostyJumped jsval
  | ScoreIncreased nat
  | Collision string nat
  | AddKeydownListener
  | RemoveKeydownListener
  | PreventDefault
  | GameOverEvent nat "string option"
  | Render
  | RequestAnimationFrame

text \<open>
  The engine object. \<open>difficulty\<close> and \<open>config\<close> are \<open>undefined\<close> (here \<open>None\<close>) until
  \<open>setDifficulty\<close> assigns them. \<open>effects\<close> is not a field of the JavaScript object: it
  records, oldest first, the calls the engine has made on its collaborators.
\<close>

record game =
  width :: real
  height :: real
  ghosty :: ghosty_t
  walls :: "wall list"
  score :: nat
  gameRunning :: bool
  gameOver :: bool
  lastWallX :: real
  difficulty :: "string option"
  config :: "profile option"
  effects :: "effect list"

text \<open>
  The canvas element the constructor reads: the \<open>width\<close> and \<open>height\<close> of an HTML canvas are
  non-negative integers.
\<close>

record canvas =
  cwidth :: nat
  cheight :: nat

datatype js_error = TypeError

text \<open>
  A method either returns or throws; in both cases the object is left in some state, and the
  page goes on delivering events to it after an uncaught exception.
\<close>

datatype outcome = Returns game | Throws js_error game

fun state_of :: "outcome \<Rightarrow> game" where
  "state_of (Returns s) = s"
| "state_of (Throws e s) = s"

fun returns :: "outcome \<Rightarrow> bool" where
  "returns (Returns s) = True"
| "returns (Throws e s) = False"

text \<open>
  \<open>setupDifficulties\<close> and the lookup \<open>this.difficulties[difficulty]\<close>. The table is an
  object literal with the own keys easy, medium and hard, and a lookup that finds no own key
  goes on to \<open>Object.prototype\<close>. The names that \<open>Object.prototype\<close> defines (those of the
  language standard, with the legacy accessors every browser has) yield a function or an
  object that has none of the five properties the engine reads: the profile \<open>inherited\<close>.
  Every other name yields \<open>undefined\<close>.
\<close>

definition objectPrototypeKeys :: "string list" where
  "objectPrototypeKeys =
     [''constructor'', ''hasOwnProperty'', ''isPrototypeOf'', ''propertyIsEnumerable'',
      ''toLocaleString'', ''toString'', ''valueOf'', ''__proto__'', ''__defineGetter__'',
      ''__defineSetter__'', ''__lookupGetter__'', ''__lookupSetter__'']"

definition inherited :: profile where
  "inherited = \<lparr>gravity = Undefined, jumpStrength = Undefined, wallSpeed = Undefined,
                 gapSize = Undefined, wallSpacing = Undefined\<rparr>"

definition difficulties :: "string \<Rightarrow> profile option" where
  "difficulties d =
     (if d = ''easy'' then
        Some \<lparr>gravity = Num (3/10), jumpStrength = Num (-6), wallSpeed = Num 2,
              gapSize = Num 200, wallSpacing = Num 300\<rparr>
      else if d = ''medium'' then
        Some \<lparr>gravity = Num (4/10), jumpStrength = Num (-7), wallSpeed = Num 3,
              gapSize = Num 160, wallSpacing = Num 280\<rparr>
      else if d = ''hard'' then
        Some \<lparr>gravity = Num (5/10), jumpStrength = Num (-8), wallSpeed = Num 4,
              gapSize = Num 120, wallSpacing = Num 250\<rparr>
      else if d \<in> set objectPrototypeKeys then Some inherited
      else None)"

definition reset :: "game \<Rightarrow> game" where
  "reset s =
     s\<lparr>ghosty := \<lparr>gx = 100, gy = Num (height s / 2), gwidth = 40, gheight = 40,
                   velocity = Num 0\<rparr>,
       walls := [],
       score := 0,
       gameRunning := False,
       gameOver := False,
       lastWallX := width s\<rparr>"

text \<open>The constructor: the canvas dimensions, then \<open>reset()\<close>; no profile is bound yet.\<close>

definition FlappyKiroGame :: "canvas \<Rightarrow> game" where
  "FlappyKiroGame c =
     reset \<lparr>width = real (cwidth c), height = real (cheight c),
            ghosty = \<lparr>gx = 0, gy = Undefined, gwidth = 0, gheight = 0, velocity = Undefined\<rparr>,
            walls = [], score = 0, gameRunning = False, gameOver = False, lastWallX = 0,
            difficulty = None, config = None, effects = []\<rparr>"

definition setDifficulty :: "string \<Rightarrow> game \<Rightarrow> game" where
  "setDifficulty d s =
     s\<lparr>difficulty := Some d,
       config := difficulties d,
       effects := effects s @ [DifficultySet d]\<rparr>"

definition stop :: "game \<Rightarrow> game" where
  "stop s =
     s\<lparr>gameRunning := False,
       effects := effects s @ [RemoveKeydownListener, GameEnded (score s) (difficulty s)]\<rparr>"

text \<open>
  \<open>jump\<close> reads \<open>this.config.jumpStrength\<close>, which throws when \<open>this.config\<close> is
  \<open>undefined\<close>.
\<close>

definition jump :: "game \<Rightarrow> outcome" where
  "jump s =
     (case config s of
        None \<Rightarrow> Throws TypeError s
      | Some c \<Rightarrow>
          Returns (s\<lparr>ghosty := (ghosty s)\<lparr>velocity := jumpStrength c\<rparr>,
                     effects := effects s @ [GhostyJumped (jumpStrength c)]\<rparr>))"

definition handleKeyPress :: "string \<Rightarrow> game \<Rightarrow> outcome" where
  "handleKeyPress code s =
     (if code = ''Space'' \<and> gameRunning s \<and> \<not> gameOver s
      then jump (s\<lparr>effects := effects s @ [PreventDefault]\<rparr>)
      else Returns s)"

definition endGame :: "string \<Rightarrow> game \<Rightarrow> game" where
  "endGame collisionType s =
     s\<lparr>gameOver := True,
       gameRunning := False,
       effects := effects s @ [Collision collisionType (score s),
                               GameOverEvent (score s) (difficulty s)]\<rparr>"

text \<open>The loop over the walls in \<open>checkCollisions\<close>; it returns at the first wall hit.\<close>

fun wallCollisions :: "wall list \<Rightarrow> game \<Rightarrow> game" where
  "wallCollisions [] s = s"
| "wallCollisions (w # ws) s =
     (if js_lt (Num (gx (ghosty s))) (js_add (wx w) (Num (wwidth w))) \<and>
         js_gt (js_add (Num (gx (ghosty s))) (Num (gwidth (ghosty s)))) (wx w)
      then (if js_lt (gy (ghosty s)) (topHeight w) \<or>
               js_gt (js_add (gy (ghosty s)) (Num (gheight (ghosty s)))) (bottomY w)
            then endGame ''wall'' s
            else wallCollisions ws s)
      else wallCollisions ws s)"

definition checkCollisions :: "game \<Rightarrow> game" where
  "checkCollisions s =
     (if js_le (gy (ghosty s)) (Num 0) \<or>
         js_ge (js_add (gy (ghosty s)) (Num (gheight (ghosty s)))) (Num (height s))
      then endGame ''boundary'' s
      else wallCollisions (walls s) s)"

text \<open>
  \<open>generateWall\<close>, with \<open>this.config\<close> already dereferenced by its only caller and \<open>r\<close> the
  value of \<open>Math.random()\<close>.
\<close>

definition generateWall :: "real \<Rightarrow> profile \<Rightarrow> game \<Rightarrow> game" where
  "generateWall r c s =
     (let gapY = js_add (js_mul (Num r) (js_sub (js_sub (Num (height s)) (gapSize c)) (Num 100)))
                        (Num 50) in
      s\<lparr>walls := walls s @
            [\<lparr>wx = Num (width s), topHeight = gapY, bottomY = js_add gapY (gapSize c),
              bottomHeight = js_sub (Num (height s)) (js_add gapY (gapSize c)),
              wwidth = 60, scored = False\<rparr>],
        lastWallX := width s\<rparr>)"

text \<open>The four blocks of \<open>update\<close> before the collision check, named after its comments.\<close>

definition updatePhysics :: "profile \<Rightarrow> game \<Rightarrow> game" where
  "updatePhysics c s =
     (let s1 = s\<lparr>ghosty := (ghosty s)\<lparr>velocity := js_add (velocity (ghosty s)) (gravity c)\<rparr>\<rparr>
      in s1\<lparr>ghosty := (ghosty s1)\<lparr>gy := js_add (gy (ghosty s1)) (velocity (ghosty s1))\<rparr>\<rparr>)"

definition generateWalls :: "real \<Rightarrow> profile \<Rightarrow> game \<Rightarrow> game" where
  "generateWalls r c s =
     (if walls s = [] \<or>
         js_ge (js_sub (Num (lastWallX s)) (wx (last (walls s)))) (wallSpacing c)
      then generateWall r c s
      else s)"

definition updateWalls :: "profile \<Rightarrow> game \<Rightarrow> game" where
  "updateWalls c s =
     s\<lparr>walls := map (\<lambda>w. w\<lparr>wx := js_sub (wx w) (wallSpeed c)\<rparr>) (walls s)\<rparr>"

text \<open>
  The callback of \<open>this.walls.filter\<close>: whether the wall is kept, the wall object as the
  callback leaves it, and the engine as the callback leaves it.
\<close>

definition removeCallback :: "wall \<Rightarrow> game \<Rightarrow> bool \<times> wall \<times> game" where
  "removeCallback w s =
     (if js_lt (js_add (wx w) (Num (wwidth w))) (Num 0)
      then (if \<not> scored w
            then (False, w\<lparr>scored := True\<rparr>,
                  s\<lparr>score := score s + 1, effects := effects s @ [ScoreIncreased (score s + 1)]\<rparr>)
            else (False, w, s))
      else (True, w, s))"

text \<open>
  \<open>filter\<close> visits the walls in order. The result is the kept walls, the removed wall objects
  (no longer referenced by the engine) and the engine.
\<close>

fun filterWalls :: "wall list \<Rightarrow> game \<Rightarrow> wall list \<times> wall list \<times> game" where
  "filterWalls [] s = ([], [], s)"
| "filterWalls (w # ws) s =
     (case removeCallback w s of
        (keep, w', s') \<Rightarrow>
          (case filterWalls ws s' of
             (kept, removed, s'') \<Rightarrow>
               if keep then (w' # kept, removed, s'') else (kept, w' # removed, s'')))"

definition removeOffscreen :: "game \<Rightarrow> game" where
  "removeOffscreen s =
     (case filterWalls (walls s) s of (kept, removed, s') \<Rightarrow> s'\<lparr>walls := kept\<rparr>)"

definition update :: "real \<Rightarrow> game \<Rightarrow> outcome" where
  "update r s =
     (if \<not> gameRunning s \<or> gameOver s then Returns s
      else case config s of
        None \<Rightarrow> Throws TypeError s
      | Some c \<Rightarrow>
          Returns (checkCollisions (removeOffscreen (updateWalls c
                    (generateWalls r c (updatePhysics c s))))))"

text \<open>
  \<open>gameLoop\<close>: one \<open>update\<close>, one \<open>render\<close> and the request for the next frame, when the
  engine is running. An exception in \<open>update\<close> leaves the rest of the body unexecuted.
\<close>

definition gameLoop :: "real \<Rightarrow> game \<Rightarrow> outcome" where
  "gameLoop r s =
     (if gameRunning s
      then (case update r s of
              Returns s' \<Rightarrow> Returns (s'\<lparr>effects := effects s' @ [Render, RequestAnimationFrame]\<rparr>)
            | Throws e s' \<Rightarrow> Throws e s')
      else Returns s)"

text \<open>\<open>start\<close> ends with a call of \<open>gameLoop\<close>, so it already runs the first tick.\<close>

definition start :: "real \<Rightarrow> game \<Rightarrow> outcome" where
  "start r s =
     (let s1 = reset s;
          s2 = s1\<lparr>gameRunning := True, gameOver := False,
                  effects := effects s1 @ [AddKeydownListener, GameStarted (difficulty s1)]\<rparr>
      in gameLoop r s2)"

definition getScore :: "game \<Rightarrow> nat" where
  "getScore s = score s"

definition getDifficulty :: "game \<Rightarrow> string option" where
  "getDifficulty s = difficulty s"

text \<open>
  The calls a client can make on an engine, and the engine states a client can reach with
  them from a freshly constructed engine.
\<close>

datatype call =
    SetDifficulty string
  | Start real
  | Stop
  | KeyPress string
  | Update real
  | GameLoop real

fun exec :: "call \<Rightarrow> game \<Rightarrow> outcome" where
  "exec (SetDifficulty d) s = Returns (setDifficulty d s)"
| "exec (Start r) s = start r s"
| "exec Stop s = Returns (stop s)"
| "exec (KeyPress code) s = handleKeyPress code s"
| "exec (Update r) s = update r s"
| "exec (GameLoop r) s = gameLoop r s"

inductive reachable :: "game \<Rightarrow> bool" where
  constructed: "reachable (FlappyKiroGame c)"
| called: "reachable s \<Longrightarrow> reachable (state_of (exec k s))"

fun run :: "call list \<Rightarrow> game \<Rightarrow> game" where
  "run [] s = s"
| "run (k # ks) s = run ks (state_of (exec k s))"

section \<open>The session controller (class FlappyKiroApp)\<close>

subsection \<open>Username validation\<close>

text \<open>
  JavaScript strings are modelled as \<open>string\<close>. The character class of the regular expression
  is given by the ranges of character codes the source writes (\<open>a-z\<close>, \<open>A-Z\<close>, \<open>0-9\<close>) and the
  two single characters.
\<close>

definition inClass :: "char \<Rightarrow> bool" where
  "inClass c =
     (let n = (of_char c :: nat) in
      (of_char CHR ''a'' \<le> n \<and> n \<le> of_char CHR ''z'') \<or>
      (of_char CHR ''A'' \<le> n \<and> n \<le> of_char CHR ''Z'') \<or>
      (of_char CHR ''0'' \<le> n \<and> n \<le> of_char CHR ''9'') \<or>
      c = CHR ''_'' \<or> c = CHR ''-'')"

text \<open>
  Matching \<open>[a-zA-Z0-9_-]{lo,hi}$\<close> at the start of the input: a character that is left must
  be consumed by the repetition, and the end of the input is accepted once \<open>lo\<close> repetitions
  are done.
\<close>

fun matchRepeat :: "nat \<Rightarrow> nat \<Rightarrow> string \<Rightarrow> bool" where
  "matchRepeat lo hi [] = (lo = 0)"
| "matchRepeat lo hi (c # cs) = (0 < hi \<and> inClass c \<and> matchRepeat (lo - 1) (hi - 1) cs)"

definition regexTest :: "string \<Rightarrow> bool" where
  "regexTest u = matchRepeat 1 20 u"

text \<open>
  \<open>toLowerCase\<close> on the letters A to Z; the other characters of a string that has passed the
  regular expression are not letters, and the short-circuit \<open>&&\<close> lets no other string reach
  \<open>containsInappropriateContent\<close>.
\<close>

definition lowerChar :: "char \<Rightarrow> char" where
  "lowerChar c =
     (let n = (of_char c :: nat) in
      if of_char CHR ''A'' \<le> n \<and> n \<le> of_char CHR ''Z'' then char_of (n + 32) else c)"

definition toLowerCase :: "string \<Rightarrow> string" where
  "toLowerCase u = map lowerChar u"

fun startsWith :: "string \<Rightarrow> string \<Rightarrow> bool" where
  "startsWith hs [] = True"
| "startsWith [] (n # ns) = False"
| "startsWith (h # hs) (n # ns) = (h = n \<and> startsWith hs ns)"

fun includes_str :: "string \<Rightarrow> string \<Rightarrow> bool" where
  "includes_str [] nd = (nd = [])"
| "includes_str (h # hs) nd = (startsWith (h # hs) nd \<or> includes_str hs nd)"

definition inappropriateWords :: "string list" where
  "inappropriateWords = [''admin'', ''root'', ''test'', ''null'', ''undefined'']"

definition containsInappropriateContent :: "string \<Rightarrow> bool" where
  "containsInappropriateContent username =
     list_ex (\<lambda>word. includes_str (toLowerCase username) (toLowerCase word)) inappropriateWords"

text \<open>The value \<open>isValid\<close> that \<open>validateUsername\<close> computes and returns.\<close>

definition isValid :: "string \<Rightarrow> bool" where
  "isValid username = (regexTest username \<and> \<not> containsInappropriateContent username)"

text \<open>
  The gate as the specification words it: the string matches \<open>^[A-Za-z0-9_-]{1,20}$\<close>, that is
  it has 1 to 20 characters, each a letter, a digit, an underscore or a hyphen; and no
  denylisted word occurs in it as a substring, letter case ignored.
\<close>

definition spec_username_chars :: string where
  "spec_username_chars =
     ''ABCDEFGHIJKLMNOPQRSTUVWXYZabcdefghijklmnopqrstuvwxyz0123456789_-''"

definition spec_lower :: "char \<Rightarrow> char" where
  "spec_lower c =
     (case map_of (zip ''ABCDEFGHIJKLMNOPQRSTUVWXYZ'' ''abcdefghijklmnopqrstuvwxyz'') c of
        None \<Rightarrow> c
      | Some l \<Rightarrow> l)"

definition spec_same_ignoring_case :: "string \<Rightarrow> string \<Rightarrow> bool" where
  "spec_same_ignoring_case v w = (map spec_lower v = map spec_lower w)"

definition spec_username_ok :: "string \<Rightarrow> bool" where
  "spec_username_ok u =
     (1 \<le> length u \<and> length u \<le> 20 \<and> set u \<subseteq> set spec_username_chars \<and>
      \<not> (\<exists>w \<in> set inappropriateWords. \<exists>pre v post.
            u = pre @ v @ post \<and> spec_same_ignoring_case v w))"

subsection \<open>The controller\<close>

datatype screen = Menu | Game | GameOverScreen | Leaderboard

text \<open>The body of the POST to \<open>/api/scores\<close>.\<close>

record scoreData =
  sd_username :: string
  sd_score :: nat
  sd_difficulty :: "string option"
  sd_timestamp :: string

datatype response = Ok | NotOk string | NetworkError string

datatype app_effect =
    ScreenChanged screen
  | DifficultySelected string
  | AppInitialized
  | ShowScore nat
  | ShowDifficulty string
  | ShowFinalScore nat
  | RequestUIFrame
  | Alert string
  | PostScores scoreData
  | GetLeaderboard
  | ScoreSubmitted string nat "string option"
  | SubmissionFailed string
  | SubmissionError string

text \<open>
  The controller object together with the part of the page it reads back: the value of the
  username input, the border colour it gives that input and the \<open>disabled\<close> attribute of the
  submit button. \<open>pending\<close> holds the score submissions that were sent and whose \<open>fetch\<close> has
  not been resolved yet; \<open>appEffects\<close> records what the controller did to the page, the
  network and the telemetry, oldest first.
\<close>

record app =
  currentScreen :: screen
  selectedDifficulty :: string
  game :: "game option"
  appCanvas :: canvas
  username :: string
  borderColor :: string
  submitDisabled :: bool
  pending :: "scoreData list"
  appEffects :: "app_effect list"

definition showScreen :: "screen \<Rightarrow> app \<Rightarrow> app" where
  "showScreen screenName a =
     a\<lparr>currentScreen := screenName,
       appEffects := appEffects a @ [ScreenChanged screenName]\<rparr>"

text \<open>
  The constructor. The initial value of the username input and of the button's \<open>disabled\<close>
  attribute come from the page's markup, which is a parameter here.
\<close>

definition FlappyKiroApp :: "canvas \<Rightarrow> string \<Rightarrow> bool \<Rightarrow> app" where
  "FlappyKiroApp cv u0 dis0 =
     (let a = showScreen Menu
                \<lparr>currentScreen = Menu, selectedDifficulty = ''medium'', game = None,
                 appCanvas = cv, username = u0, borderColor = [], submitDisabled = dis0,
                 pending = [], appEffects = []\<rparr>
      in a\<lparr>appEffects := appEffects a @ [AppInitialized]\<rparr>)"

definition selectDifficulty :: "string \<Rightarrow> app \<Rightarrow> app" where
  "selectDifficulty d a =
     a\<lparr>selectedDifficulty := d,
       appEffects := appEffects a @ [DifficultySelected d]\<rparr>"

definition updateScore :: "nat \<Rightarrow> app \<Rightarrow> app" where
  "updateScore n a = a\<lparr>appEffects := appEffects a @ [ShowScore n]\<rparr>"

definition startUIUpdates :: "app \<Rightarrow> app" where
  "startUIUpdates a =
     (case game a of
        None \<Rightarrow> a
      | Some g \<Rightarrow>
          if gameRunning g
          then (let a1 = updateScore (getScore g) a
                in a1\<lparr>appEffects := appEffects a1 @ [RequestUIFrame]\<rparr>)
          else a)"

definition handleGameOver :: "nat \<Rightarrow> string option \<Rightarrow> app \<Rightarrow> app" where
  "handleGameOver sc d a =
     showScreen GameOverScreen (a\<lparr>appEffects := appEffects a @ [ShowFinalScore sc]\<rparr>)"

text \<open>
  \<open>document.dispatchEvent\<close> runs the controller's \<open>gameOver\<close> listener inside the engine's
  call: the controller handles every \<open>gameOver\<close> event the engine has dispatched since the
  state \<open>g\<close>.
\<close>

fun handleDispatched :: "effect list \<Rightarrow> app \<Rightarrow> app" where
  "handleDispatched [] a = a"
| "handleDispatched (GameOverEvent sc d # es) a = handleDispatched es (handleGameOver sc d a)"
| "handleDispatched (e # es) a = handleDispatched es a"

definition engineCall :: "game \<Rightarrow> outcome \<Rightarrow> app \<Rightarrow> app" where
  "engineCall g out a =
     handleDispatched (drop (length (effects g)) (effects (state_of out)))
       (a\<lparr>game := Some (state_of out)\<rparr>)"

definition startGame :: "real \<Rightarrow> app \<Rightarrow> app" where
  "startGame r a =
     (let a1 = showScreen Game a;
          g = setDifficulty (selectedDifficulty a1) (FlappyKiroGame (appCanvas a1));
          a2 = a1\<lparr>game := Some g\<rparr>;
          a3 = a2\<lparr>appEffects := appEffects a2 @ [ShowDifficulty (selectedDifficulty a2)]\<rparr>;
          a4 = updateScore 0 a3;
          a5 = startUIUpdates a4
      in engineCall g (start r g) a5)"

text \<open>
  \<open>validateUsername\<close> is only ever called with the username input: it colours the input,
  sets the button's \<open>disabled\<close> attribute and returns \<open>isValid\<close>.
\<close>

definition validateUsername :: "app \<Rightarrow> bool \<times> app" where
  "validateUsername a =
     (let v = isValid (username a)
      in (v, a\<lparr>borderColor := (if v then ''#4CAF50'' else ''#f44336''),
               submitDisabled := \<not> v\<rparr>))"

text \<open>
  \<open>submitScore\<close> up to its first \<open>await\<close>; \<open>now\<close> is \<open>new Date().toISOString()\<close>. Without an
  engine, \<open>this.game.getScore()\<close> throws before \<open>fetch\<close> is called.
\<close>

definition submitScore :: "string \<Rightarrow> app \<Rightarrow> app" where
  "submitScore now a =
     (let u = username a in
      case validateUsername a of
        (v, a1) \<Rightarrow>
          if \<not> v
          then a1\<lparr>appEffects := appEffects a1 @
                 [Alert ''Please enter a valid username (alphanumeric, underscore, hyphen only, 1-20 characters)'']\<rparr>
          else (case game a1 of
                  None \<Rightarrow> a1
                | Some g \<Rightarrow>
                    (let d = \<lparr>sd_username = u, sd_score = getScore g,
                              sd_difficulty = getDifficulty g, sd_timestamp = now\<rparr>
                     in a1\<lparr>pending := pending a1 @ [d],
                           appEffects := appEffects a1 @ [PostScores d]\<rparr>)))"

text \<open>The rest of \<open>submitScore\<close>, run when the \<open>fetch\<close> of the submission \<open>d\<close> is resolved.\<close>

definition submitScoreResolved :: "scoreData \<Rightarrow> response \<Rightarrow> app \<Rightarrow> app" where
  "submitScoreResolved d resp a =
     (let a1 = a\<lparr>pending := remove1 d (pending a)\<rparr> in
      case resp of
        Ok \<Rightarrow>
          a1\<lparr>username := [],
             appEffects := appEffects a1 @
               [ScoreSubmitted (sd_username d) (sd_score d) (sd_difficulty d),
                Alert ''Score submitted successfully!'']\<rparr>
      | NotOk msg \<Rightarrow>
          a1\<lparr>appEffects := appEffects a1 @
               [Alert (''Failed to submit score: '' @ msg), SubmissionFailed msg]\<rparr>
      | NetworkError msg \<Rightarrow>
          a1\<lparr>appEffects := appEffects a1 @
               [Alert ''Failed to submit score. Please try again.'', SubmissionError msg]\<rparr>)"

text \<open>\<open>showLeaderboard\<close> up to its first \<open>await\<close>.\<close>

definition showLeaderboard :: "app \<Rightarrow> app" where
  "showLeaderboard a =
     (let a1 = showScreen Leaderboard a
      in a1\<lparr>appEffects := appEffects a1 @ [GetLeaderboard]\<rparr>)"

text \<open>
  The events the page delivers, with the listeners \<open>setupEventListeners\<close> registers for them.
  A disabled button receives no click. Animation frames and key presses go to the engine the
  controller currently holds; \<open>FetchResolved\<close> resumes a suspended \<open>submitScore\<close>.
\<close>

datatype ui_event =
    DifficultyClick string
  | StartGameClick real
  | ShowLeaderboardClick
  | SubmitScoreClick string
  | PlayAgainClick real
  | BackToMenuClick
  | BackFromLeaderboardClick
  | UsernameInput string
  | KeyDown string
  | AnimationFrame real
  | FetchResolved scoreData response

fun deliver :: "ui_event \<Rightarrow> app \<Rightarrow> app" where
  "deliver (DifficultyClick d) a = selectDifficulty d a"
| "deliver (StartGameClick r) a = startGame r a"
| "deliver ShowLeaderboardClick a = showLeaderboard a"
| "deliver (SubmitScoreClick now) a = (if submitDisabled a then a else submitScore now a)"
| "deliver (PlayAgainClick r) a = startGame r a"
| "deliver BackToMenuClick a = showScreen Menu a"
| "deliver BackFromLeaderboardClick a = showScreen Menu a"
| "deliver (UsernameInput u) a = snd (validateUsername (a\<lparr>username := u\<rparr>))"
| "deliver (KeyDown code) a =
     (case game a of None \<Rightarrow> a | Some g \<Rightarrow> engineCall g (handleKeyPress code g) a)"
| "deliver (AnimationFrame r) a =
     (case game a of None \<Rightarrow> a | Some g \<Rightarrow> engineCall g (gameLoop r g) a)"
| "deliver (FetchResolved d resp) a =
     (if d \<in> set (pending a) then submitScoreResolved d resp a else a)"

fun deliverAll :: "ui_event list \<Rightarrow> app \<Rightarrow> app" where
  "deliverAll [] a = a"
| "deliverAll (e # es) a = deliverAll es (deliver e a)"

section \<open>Notions of the specification\<close>

text \<open>
  An obstacle is retired when its trailing edge (position + width) is left of the playfield's
  left edge.
\<close>

definition offscreen :: "wall \<Rightarrow> bool" where
  "offscreen w = (case wx w of Num x \<Rightarrow> x + wwidth w < 0 | _ \<Rightarrow> False)"

text \<open>
  The two violations that end a run: the actor's top edge at or above the top of the
  playfield or its bottom edge at or below the bottom; and, for an obstacle whose horizontal
  span overlaps the actor's, the actor's top edge above the gap or its bottom edge below it.
\<close>

definition boundaryViolation :: "game \<Rightarrow> bool" where
  "boundaryViolation s =
     (case gy (ghosty s) of
        Num y \<Rightarrow> y \<le> 0 \<or> height s \<le> y + gheight (ghosty s)
      | _ \<Rightarrow> False)"

definition gapViolation :: "game \<Rightarrow> wall \<Rightarrow> bool" where
  "gapViolation s w =
     ((case wx w of
         Num x \<Rightarrow> gx (ghosty s) < x + wwidth w \<and> x < gx (ghosty s) + gwidth (ghosty s)
       | _ \<Rightarrow> False) \<and>
      (js_lt (gy (ghosty s)) (topHeight w) \<or>
       js_lt (bottomY w) (js_add (gy (ghosty s)) (Num (gheight (ghosty s))))))"

text \<open>What a call has added to the record of the engine's effects.\<close>

definition newEffects :: "game \<Rightarrow> game \<Rightarrow> effect list" where
  "newEffects s s' = drop (length (effects s)) (effects s')"

fun isGameOverEvent :: "effect \<Rightarrow> bool" where
  "isGameOverEvent (GameOverEvent n d) = True"
| "isGameOverEvent e = False"

fun isCollision :: "effect \<Rightarrow> bool" where
  "isCollision (Collision k n) = True"
| "isCollision e = False"

fun isStep :: "call \<Rightarrow> bool" where
  "isStep (Update r) = True"
| "isStep (GameLoop r) = True"
| "isStep (Start r) = True"
| "isStep k = False"

text \<open>
  What every reachable engine satisfies: the obstacles are 60 wide and not yet scored; an
  obstacle whose position is a number is not yet past the left edge, and of two obstacles
  whose positions are numbers the later one is at least 250 further right (the smallest
  spacing of the table); and a bound value of \<open>config\<close> is one that the lookup yields.
\<close>

definition wallGap :: "wall \<Rightarrow> wall \<Rightarrow> bool" where
  "wallGap a b =
     (case wx a of
        Num xa \<Rightarrow> (case wx b of Num xb \<Rightarrow> xa + 250 \<le> xb | _ \<Rightarrow> True)
      | _ \<Rightarrow> True)"

definition engineInv :: "game \<Rightarrow> bool" where
  "engineInv s =
     (0 \<le> width s \<and> lastWallX s = width s \<and>
      list_all (\<lambda>w. wwidth w = 60 \<and> \<not> scored w \<and>
                    (case wx w of Num x \<Rightarrow> 0 \<le> x + 60 | _ \<Rightarrow> True)) (walls s) \<and>
      sorted_wrt wallGap (walls s) \<and>
      (case config s of None \<Rightarrow> True | Some c \<Rightarrow> c \<in> ran difficulties))"

text \<open>
  The state \<open>start()\<close> builds before its first tick, on a playfield of height 600 with the
  easy profile: the actor at y = 300 with velocity 0.
\<close>

definition scenario :: game where
  "scenario = (reset (setDifficulty ''easy'' (FlappyKiroGame \<lparr>cwidth = 800, cheight = 600\<rparr>)))
                \<lparr>gameRunning := True, gameOver := False\<rparr>"

text \<open>A run ends on a boundary violation or on a gap violation against some obstacle.\<close>

definition collides :: "game \<Rightarrow> bool" where
  "collides s = (boundaryViolation s \<or> (\<exists>w \<in> set (walls s). gapViolation s w))"

text \<open>The engine as \<open>update\<close> hands it to \<open>checkCollisions\<close>.\<close>

definition beforeCheck :: "real \<Rightarrow> profile \<Rightarrow> game \<Rightarrow> game" where
  "beforeCheck r c s = removeOffscreen (updateWalls c (generateWalls r c (updatePhysics c s)))"

text \<open>The scenario's engine with the actor 40 above the bottom of the playfield.\<close>

definition nearFloor :: game where
  "nearFloor = scenario\<lparr>ghosty := (ghosty scenario)\<lparr>gy := Num 560\<rparr>\<rparr>"




text \<open>Recognisers for the requests of score submissions and for the log entries of \<open>stop\<close>.\<close>

fun isPostScores :: "app_effect \<Rightarrow> bool" where
  "isPostScores (PostScores d) = True"
| "isPostScores e = False"

fun isGameEnded :: "effect \<Rightarrow> bool" where
  "isGameEnded (GameEnded n d) = True"
| "isGameEnded e = False"

text \<open>The text of the alert for a rejected username.\<close>

definition invalidMessage :: string where
  "invalidMessage =
     ''Please enter a valid username (alphanumeric, underscore, hyphen only, 1-20 characters)''"

text \<open>
  Controllers reached from the constructor. \<open>lostApp\<close>: on a canvas 80 high the first tick
  ends the game at the boundary, and the user then types \<open>Player_1\<close>. \<open>playingApp\<close>: a game in
  progress on a canvas of 800 by 600. \<open>onePendingApp\<close>: \<open>lostApp\<close> after one click on the submit
  button. \<open>submittedApp\<close>: \<open>lostApp\<close> after a submission that the server accepted, which clears
  the username and leaves the button enabled.
\<close>

definition lostApp :: app where
  "lostApp = deliverAll [StartGameClick 0, UsernameInput ''Player_1'']
               (FlappyKiroApp \<lparr>cwidth = 800, cheight = 80\<rparr> [] True)"

definition playingApp :: app where
  "playingApp = deliver (StartGameClick (1/2)) (FlappyKiroApp \<lparr>cwidth = 800, cheight = 600\<rparr> [] True)"

definition onePendingApp :: app where
  "onePendingApp = deliver (SubmitScoreClick ''t1'') lostApp"

definition submittedApp :: app where
  "submittedApp =
     deliverAll [SubmitScoreClick ''t1'',
                 FetchResolved \<lparr>sd_username = ''Player_1'', sd_score = 0,
                                sd_difficulty = Some ''medium'', sd_timestamp = ''t1''\<rparr> Ok]
       lostApp"

text \<open>
  The engine that \<open>start\<close> leaves on a freshly constructed engine, with no profile bound.
\<close>

definition unconfigured :: game where
  "unconfigured = state_of (start (1/2) (FlappyKiroGame \<lparr>cwidth = 800, cheight = 600\<rparr>))"

text \<open>
  The engine that \<open>start\<close> leaves after the name toString was bound: the lookup yields the
  inherited function, whose gravity and wall speed are \<open>undefined\<close>.
\<close>

definition poisoned :: game where
  "poisoned = state_of (start (1/2) (setDifficulty ''toString''
                 (FlappyKiroGame \<lparr>cwidth = 800, cheight = 600\<rparr>)))"

text \<open>
  A call ends the run when the engine is terminal after it and was not terminal before, or
  the call is \<open>start\<close>, which begins a new run.
\<close>

fun isStart :: "call \<Rightarrow> bool" where
  "isStart (Start r) = True"
| "isStart k = False"

definition endsRun :: "call \<Rightarrow> game \<Rightarrow> bool" where
  "endsRun k s = (gameOver (state_of (exec k s)) \<and> (\<not> gameOver s \<or> isStart k))"

text \<open>The reason that \<open>checkCollisions\<close> logs: it tests the boundary first.\<close>

definition reason :: "game \<Rightarrow> string" where
  "reason s = (if boundaryViolation s then ''boundary'' else ''wall'')"

text \<open>
  What a call from \<open>s\<close> to \<open>s'\<close> has dispatched and logged when it ends the run (\<open>b\<close>) and when
  it does not: exactly one \<open>gameOver\<close> event and one collision, or none.
\<close>

definition stepEvents :: "game \<Rightarrow> game \<Rightarrow> bool \<Rightarrow> bool" where
  "stepEvents s s' b =
     (filter isGameOverEvent (newEffects s s') =
        (if b then [GameOverEvent (score s') (difficulty s')] else []) \<and>
      filter isCollision (newEffects s s') =
        (if b then [Collision (reason s') (score s')] else []) \<and>
      (b \<longrightarrow> \<not> gameRunning s' \<and> collides s'))"

section \<open>The engine: theorems\<close>

subsection \<open>Frame of stop\<close>

text \<open>
  C10. \<open>stop()\<close> changes the running flag only: it clears it, and the score, the terminal
  flag, the actor, the obstacle list, the bound profile and every other field of the engine
  are as before. It tells the collaborators that the game ended (the keydown listener is
  removed and the end of the game is logged with the score and the difficulty).
\<close>

theorem stop_frame:
  "gameRunning (stop s) = False \<and>
   score (stop s) = score s \<and>
   gameOver (stop s) = gameOver s \<and>
   ghosty (stop s) = ghosty s \<and>
   walls (stop s) = walls s \<and>
   config (stop s) = config s \<and>
   difficulty (stop s) = difficulty s \<and>
   width (stop s) = width s \<and>
   height (stop s) = height s \<and>
   lastWallX (stop s) = lastWallX s \<and>
   stop s = s\<lparr>gameRunning := False, effects := effects (stop s)\<rparr> \<and>
   effects (stop s) = effects s @ [RemoveKeydownListener, GameEnded (score s) (difficulty s)]"
  by (simp add: stop_def)

subsection \<open>What each block of update leaves alone\<close>

lemma offscreen_js: "js_lt (js_add (wx w) (Num (wwidth w))) (Num 0) = offscreen w"
  by (cases "wx w") (simp_all add: offscreen_def)

lemma filterWalls_Cons:
  "filterWalls (w # ws) s =
     (if offscreen w
      then (if \<not> scored w
            then (let p = filterWalls ws (s\<lparr>score := score s + 1,
                              effects := effects s @ [ScoreIncreased (score s + 1)]\<rparr>)
                  in (fst p, w\<lparr>scored := True\<rparr> # fst (snd p), snd (snd p)))
            else (let p = filterWalls ws s in (fst p, w # fst (snd p), snd (snd p))))
      else (let p = filterWalls ws s in (w # fst p, fst (snd p), snd (snd p))))"
  by (simp add: removeCallback_def offscreen_js Let_def case_prod_beta)

lemma filterWalls_frame:
  "ghosty (snd (snd (filterWalls ws s))) = ghosty s \<and>
   gameRunning (snd (snd (filterWalls ws s))) = gameRunning s \<and>
   gameOver (snd (snd (filterWalls ws s))) = gameOver s \<and>
   width (snd (snd (filterWalls ws s))) = width s \<and>
   height (snd (snd (filterWalls ws s))) = height s \<and>
   lastWallX (snd (snd (filterWalls ws s))) = lastWallX s \<and>
   config (snd (snd (filterWalls ws s))) = config s \<and>
   difficulty (snd (snd (filterWalls ws s))) = difficulty s"
  by (induction ws arbitrary: s) (simp_all add: filterWalls_Cons Let_def del: filterWalls.simps(2))




lemma filterWalls_effects:
  "\<exists>es. effects (snd (snd (filterWalls ws s))) = effects s @ es \<and>
        (\<forall>e \<in> set es. \<exists>n. e = ScoreIncreased n)"
proof (induction ws arbitrary: s)
  case Nil
  then show ?case by simp
next
  case (Cons w ws)
  obtain keep w1 s1 where cb: "removeCallback w s = (keep, w1, s1)"
    by (cases "removeCallback w s") auto
  from cb obtain e1 where e1: "effects s1 = effects s @ e1" "\<forall>e \<in> set e1. \<exists>n. e = ScoreIncreased n"
    by (auto simp: removeCallback_def split: if_splits)
  from Cons.IH[of s1] obtain e2 where
    e2: "effects (snd (snd (filterWalls ws s1))) = effects s1 @ e2" "\<forall>e \<in> set e2. \<exists>n. e = ScoreIncreased n"
    by blast
  have "snd (snd (filterWalls (w # ws) s)) = snd (snd (filterWalls ws s1))"
    using cb by (simp split: prod.splits)
  with e1 e2 have "effects (snd (snd (filterWalls (w # ws) s))) = effects s @ (e1 @ e2)"
    by simp
  moreover from e1 e2 have "\<forall>e \<in> set (e1 @ e2). \<exists>n. e = ScoreIncreased n"
    by auto
  ultimately show ?case by blast
qed

lemma removeOffscreen_eq:
  "removeOffscreen s = (snd (snd (filterWalls (walls s) s)))\<lparr>walls := fst (filterWalls (walls s) s)\<rparr>"
  by (simp add: removeOffscreen_def case_prod_beta)

lemma removeOffscreen_frame:
  "ghosty (removeOffscreen s) = ghosty s \<and> gameRunning (removeOffscreen s) = gameRunning s \<and>
   gameOver (removeOffscreen s) = gameOver s \<and> width (removeOffscreen s) = width s \<and>
   height (removeOffscreen s) = height s \<and> lastWallX (removeOffscreen s) = lastWallX s \<and>
   config (removeOffscreen s) = config s \<and> difficulty (removeOffscreen s) = difficulty s"
  by (simp add: removeOffscreen_eq filterWalls_frame)



lemma removeOffscreen_effects:
  "\<exists>es. effects (removeOffscreen s) = effects s @ es \<and> (\<forall>e \<in> set es. \<exists>n. e = ScoreIncreased n)"
  using filterWalls_effects[of "walls s" s] by (simp add: removeOffscreen_eq)

lemma wallCollisions_cases:
  "wallCollisions ws s = s \<or> wallCollisions ws s = endGame ''wall'' s"
  by (induction ws) auto

lemma checkCollisions_cases:
  "checkCollisions s = s \<or> checkCollisions s = endGame ''boundary'' s \<or>
   checkCollisions s = endGame ''wall'' s"
  using wallCollisions_cases[of "walls s" s] by (auto simp: checkCollisions_def)

lemma checkCollisions_ghosty: "ghosty (checkCollisions s) = ghosty s"
  using checkCollisions_cases[of s] by (auto simp: endGame_def)

lemma generateWalls_ghosty: "ghosty (generateWalls r c s) = ghosty s"
  by (simp add: generateWalls_def generateWall_def Let_def)

lemma updateWalls_ghosty: "ghosty (updateWalls c s) = ghosty s"
  by (simp add: updateWalls_def)

lemma updatePhysics_ghosty:
  "ghosty (updatePhysics c s) =
     (ghosty s)\<lparr>velocity := js_add (velocity (ghosty s)) (gravity c),
                gy := js_add (gy (ghosty s)) (js_add (velocity (ghosty s)) (gravity c))\<rparr>"
  by (simp add: updatePhysics_def Let_def)

lemma update_running:
  assumes "gameRunning s" and "\<not> gameOver s" and "config s = Some c"
  shows "update r s = Returns (checkCollisions (removeOffscreen (updateWalls c
            (generateWalls r c (updatePhysics c s)))))"
  using assms by (simp add: update_def)

lemma update_ghosty:
  assumes "gameRunning s" and "\<not> gameOver s" and "config s = Some c"
  shows "ghosty (state_of (update r s)) =
     (ghosty s)\<lparr>velocity := js_add (velocity (ghosty s)) (gravity c),
                gy := js_add (gy (ghosty s)) (js_add (velocity (ghosty s)) (gravity c))\<rparr>"
  by (simp add: update_running[OF assms] checkCollisions_ghosty removeOffscreen_frame
      updateWalls_ghosty generateWalls_ghosty updatePhysics_ghosty)

lemma handleKeyPress_space:
  assumes "gameRunning s" and "\<not> gameOver s" and "config s = Some c"
  shows "handleKeyPress ''Space'' s =
     Returns (s\<lparr>ghosty := (ghosty s)\<lparr>velocity := jumpStrength c\<rparr>,
                effects := effects s @ [PreventDefault, GhostyJumped (jumpStrength c)]\<rparr>)"
  using assms by (simp add: handleKeyPress_def jump_def)

lemma scenario_facts:
  "gameRunning scenario \<and> \<not> gameOver scenario \<and>
   config scenario = difficulties ''easy'' \<and>
   difficulties ''easy'' =
     Some \<lparr>gravity = Num (3/10), jumpStrength = Num (-6), wallSpeed = Num 2,
           gapSize = Num 200, wallSpacing = Num 300\<rparr> \<and>
   height scenario = 600 \<and> gy (ghosty scenario) = Num 300 \<and>
   velocity (ghosty scenario) = Num 0"
  by (simp add: scenario_def reset_def setDifficulty_def FlappyKiroGame_def difficulties_def)

subsection \<open>Evaluating the engine\<close>

lemmas engine_defs = start_def gameLoop_def update_def reset_def setDifficulty_def FlappyKiroGame_def
  difficulties_def checkCollisions_def removeOffscreen_def updateWalls_def generateWalls_def
  generateWall_def updatePhysics_def removeCallback_def endGame_def Let_def

lemma unconfigured_facts:
  "start (1/2) (FlappyKiroGame \<lparr>cwidth = 800, cheight = 600\<rparr>) = Throws TypeError unconfigured \<and>
   gameRunning unconfigured \<and> \<not> gameOver unconfigured \<and> config unconfigured = None \<and>
   velocity (ghosty unconfigured) = Num 0 \<and> gy (ghosty unconfigured) = Num 300"
  by (simp add: unconfigured_def engine_defs)

lemma unconfigured_reachable: "reachable unconfigured"
  unfolding unconfigured_def
  using reachable.called[OF reachable.constructed, of "Start (1/2)" "\<lparr>cwidth = 800, cheight = 600\<rparr>"]
  by simp

subsection \<open>Integration comes first\<close>

text \<open>
  C1 (as the code has it). In a running, non-terminal engine with \<open>config\<close> bound, one call of
  \<open>update\<close> first adds the gravity to the velocity and then the new velocity to the position
  (the additions of JavaScript); wall generation, scrolling, removal and the collision check
  then run on the integrated state and leave the actor as integration left it. With the
  easy profile, an actor at y = 300 with velocity 0 has velocity 0.3 and y = 300.3 after one
  tick; after a key press (velocity -6) and one tick it has velocity -5.7 and y = 294.3.
  In a running, non-terminal engine with no \<open>config\<close> bound, \<open>update\<close> throws a TypeError and
  integrates nothing.
\<close>

theorem update_integrates_first:
  "(gameRunning s \<and> \<not> gameOver s \<and> config s = Some c \<longrightarrow>
      update r s = Returns (checkCollisions (removeOffscreen (updateWalls c
            (generateWalls r c (updatePhysics c s))))) \<and>
      updatePhysics c s =
        s\<lparr>ghosty := (ghosty s)\<lparr>velocity := js_add (velocity (ghosty s)) (gravity c),
               gy := js_add (gy (ghosty s)) (js_add (velocity (ghosty s)) (gravity c))\<rparr>\<rparr> \<and>
      ghosty (state_of (update r s)) = ghosty (updatePhysics c s) \<and>
      velocity (ghosty (state_of (update r s))) = js_add (velocity (ghosty s)) (gravity c) \<and>
      gy (ghosty (state_of (update r s))) =
        js_add (gy (ghosty s)) (js_add (velocity (ghosty s)) (gravity c)) \<and>
      (difficulties ''easy'' = Some c \<and> gy (ghosty s) = Num 300 \<and> velocity (ghosty s) = Num 0 \<longrightarrow>
         velocity (ghosty (state_of (update r s))) = Num (3/10) \<and>
         gy (ghosty (state_of (update r s))) = Num (3003/10) \<and>
         velocity (ghosty (state_of (handleKeyPress ''Space'' s))) = Num (-6) \<and>
         velocity (ghosty (state_of (update r (state_of (handleKeyPress ''Space'' s))))) =
           Num (-57/10) \<and>
         gy (ghosty (state_of (update r (state_of (handleKeyPress ''Space'' s))))) =
           Num (2943/10))) \<and>
   (gameRunning s \<and> \<not> gameOver s \<and> config s = None \<longrightarrow>
      update r s = Throws TypeError s)"
proof -
  have A: "gameRunning s \<and> \<not> gameOver s \<and> config s = Some c \<longrightarrow>
      update r s = Returns (checkCollisions (removeOffscreen (updateWalls c
            (generateWalls r c (updatePhysics c s))))) \<and>
      updatePhysics c s =
        s\<lparr>ghosty := (ghosty s)\<lparr>velocity := js_add (velocity (ghosty s)) (gravity c),
               gy := js_add (gy (ghosty s)) (js_add (velocity (ghosty s)) (gravity c))\<rparr>\<rparr> \<and>
      ghosty (state_of (update r s)) = ghosty (updatePhysics c s) \<and>
      velocity (ghosty (state_of (update r s))) = js_add (velocity (ghosty s)) (gravity c) \<and>
      gy (ghosty (state_of (update r s))) =
        js_add (gy (ghosty s)) (js_add (velocity (ghosty s)) (gravity c)) \<and>
      (difficulties ''easy'' = Some c \<and> gy (ghosty s) = Num 300 \<and> velocity (ghosty s) = Num 0 \<longrightarrow>
         velocity (ghosty (state_of (update r s))) = Num (3/10) \<and>
         gy (ghosty (state_of (update r s))) = Num (3003/10) \<and>
         velocity (ghosty (state_of (handleKeyPress ''Space'' s))) = Num (-6) \<and>
         velocity (ghosty (state_of (update r (state_of (handleKeyPress ''Space'' s))))) =
           Num (-57/10) \<and>
         gy (ghosty (state_of (update r (state_of (handleKeyPress ''Space'' s))))) =
           Num (2943/10))"
  proof (intro impI)
    assume hyp: "gameRunning s \<and> \<not> gameOver s \<and> config s = Some c"
    then have run: "gameRunning s" and live: "\<not> gameOver s" and cfg: "config s = Some c"
      by simp_all
    let ?j = "s\<lparr>ghosty := (ghosty s)\<lparr>velocity := jumpStrength c\<rparr>,
                effects := effects s @ [PreventDefault, GhostyJumped (jumpStrength c)]\<rparr>"
    have jr: "gameRunning ?j" and jl: "\<not> gameOver ?j" and jc: "config ?j = Some c"
      using run live cfg by simp_all
    have key: "state_of (handleKeyPress ''Space'' s) = ?j"
      by (simp add: handleKeyPress_space[OF run live cfg])
    have a: "update r s = Returns (checkCollisions (removeOffscreen (updateWalls c
              (generateWalls r c (updatePhysics c s)))))"
      by (rule update_running[OF run live cfg])
    have b: "updatePhysics c s =
        s\<lparr>ghosty := (ghosty s)\<lparr>velocity := js_add (velocity (ghosty s)) (gravity c),
               gy := js_add (gy (ghosty s)) (js_add (velocity (ghosty s)) (gravity c))\<rparr>\<rparr>"
      by (simp add: updatePhysics_def Let_def)
    have g: "ghosty (state_of (update r s)) =
       (ghosty s)\<lparr>velocity := js_add (velocity (ghosty s)) (gravity c),
                  gy := js_add (gy (ghosty s)) (js_add (velocity (ghosty s)) (gravity c))\<rparr>"
      by (rule update_ghosty[OF run live cfg])
    have g': "ghosty (state_of (update r s)) = ghosty (updatePhysics c s)"
      by (simp add: g updatePhysics_ghosty)
    have gj: "ghosty (state_of (update r ?j)) =
       (ghosty ?j)\<lparr>velocity := js_add (velocity (ghosty ?j)) (gravity c),
                  gy := js_add (gy (ghosty ?j)) (js_add (velocity (ghosty ?j)) (gravity c))\<rparr>"
      by (rule update_ghosty[OF jr jl jc])
    have c: "velocity (ghosty (state_of (update r s))) = js_add (velocity (ghosty s)) (gravity c)"
      and d: "gy (ghosty (state_of (update r s))) =
                js_add (gy (ghosty s)) (js_add (velocity (ghosty s)) (gravity c))"
      by (simp_all add: g)
    have e: "difficulties ''easy'' = Some c \<and> gy (ghosty s) = Num 300 \<and> velocity (ghosty s) = Num 0 \<longrightarrow>
         velocity (ghosty (state_of (update r s))) = Num (3/10) \<and>
         gy (ghosty (state_of (update r s))) = Num (3003/10) \<and>
         velocity (ghosty (state_of (handleKeyPress ''Space'' s))) = Num (-6) \<and>
         velocity (ghosty (state_of (update r (state_of (handleKeyPress ''Space'' s))))) =
           Num (-57/10) \<and>
         gy (ghosty (state_of (update r (state_of (handleKeyPress ''Space'' s))))) =
           Num (2943/10)"
    proof (intro impI)
      assume h: "difficulties ''easy'' = Some c \<and> gy (ghosty s) = Num 300 \<and>
                 velocity (ghosty s) = Num 0"
      then have "c = \<lparr>gravity = Num (3/10), jumpStrength = Num (-6), wallSpeed = Num 2,
                      gapSize = Num 200, wallSpacing = Num 300\<rparr>"
        by (simp add: difficulties_def)
      then have gr: "gravity c = Num (3/10)" and js: "jumpStrength c = Num (-6)"
        by simp_all
      have v1: "velocity (ghosty (state_of (update r (state_of (handleKeyPress ''Space'' s))))) =
          js_add (jumpStrength c) (gravity c)"
        unfolding key gj by simp
      have y1: "gy (ghosty (state_of (update r (state_of (handleKeyPress ''Space'' s))))) =
          js_add (gy (ghosty s)) (js_add (jumpStrength c) (gravity c))"
        unfolding key gj by simp
      have k1: "velocity (ghosty (state_of (handleKeyPress ''Space'' s))) = jumpStrength c"
        unfolding key by simp
      show "velocity (ghosty (state_of (update r s))) = Num (3/10) \<and>
         gy (ghosty (state_of (update r s))) = Num (3003/10) \<and>
         velocity (ghosty (state_of (handleKeyPress ''Space'' s))) = Num (-6) \<and>
         velocity (ghosty (state_of (update r (state_of (handleKeyPress ''Space'' s))))) =
           Num (-57/10) \<and>
         gy (ghosty (state_of (update r (state_of (handleKeyPress ''Space'' s))))) =
           Num (2943/10)"
        using h by (simp add: c d v1 y1 k1 gr js)
    qed
    from a b g' c d e
    show "update r s = Returns (checkCollisions (removeOffscreen (updateWalls c
            (generateWalls r c (updatePhysics c s))))) \<and>
      updatePhysics c s =
        s\<lparr>ghosty := (ghosty s)\<lparr>velocity := js_add (velocity (ghosty s)) (gravity c),
               gy := js_add (gy (ghosty s)) (js_add (velocity (ghosty s)) (gravity c))\<rparr>\<rparr> \<and>
      ghosty (state_of (update r s)) = ghosty (updatePhysics c s) \<and>
      velocity (ghosty (state_of (update r s))) = js_add (velocity (ghosty s)) (gravity c) \<and>
      gy (ghosty (state_of (update r s))) =
        js_add (gy (ghosty s)) (js_add (velocity (ghosty s)) (gravity c)) \<and>
      (difficulties ''easy'' = Some c \<and> gy (ghosty s) = Num 300 \<and> velocity (ghosty s) = Num 0 \<longrightarrow>
         velocity (ghosty (state_of (update r s))) = Num (3/10) \<and>
         gy (ghosty (state_of (update r s))) = Num (3003/10) \<and>
         velocity (ghosty (state_of (handleKeyPress ''Space'' s))) = Num (-6) \<and>
         velocity (ghosty (state_of (update r (state_of (handleKeyPress ''Space'' s))))) =
           Num (-57/10) \<and>
         gy (ghosty (state_of (update r (state_of (handleKeyPress ''Space'' s))))) =
           Num (2943/10))"
      by blast
  qed
  have B: "gameRunning s \<and> \<not> gameOver s \<and> config s = None \<longrightarrow> update r s = Throws TypeError s"
    by (simp add: update_def)
  from A B show ?thesis by blast
qed

theorem update_integrates_first_witness:
  "gameRunning scenario \<and> \<not> gameOver scenario \<and>
   config scenario = difficulties ''easy'' \<and> height scenario = 600 \<and>
   gy (ghosty scenario) = Num 300 \<and> velocity (ghosty scenario) = Num 0 \<and>
   velocity (ghosty (state_of (update (1/2) scenario))) = Num (3/10) \<and>
   gy (ghosty (state_of (update (1/2) scenario))) = Num (3003/10) \<and>
   velocity (ghosty (state_of (update (1/2) (state_of (handleKeyPress ''Space'' scenario))))) =
     Num (-57/10) \<and>
   gy (ghosty (state_of (update (1/2) (state_of (handleKeyPress ''Space'' scenario))))) =
     Num (2943/10) \<and>
   gameRunning unconfigured \<and> \<not> gameOver unconfigured \<and> config unconfigured = None \<and>
   update (1/2) unconfigured = Throws TypeError unconfigured"
proof -
  let ?c = "\<lparr>gravity = Num (3/10), jumpStrength = Num (-6), wallSpeed = Num 2,
             gapSize = Num 200, wallSpacing = Num 300\<rparr>"
  have f: "gameRunning scenario \<and> \<not> gameOver scenario \<and> config scenario = Some ?c"
    and pos: "difficulties ''easy'' = Some ?c \<and> gy (ghosty scenario) = Num 300 \<and>
              velocity (ghosty scenario) = Num 0"
    using scenario_facts by simp_all
  from update_integrates_first[of scenario ?c "1/2"] f pos
  have 1: "velocity (ghosty (state_of (update (1/2) scenario))) = Num (3/10) \<and>
        gy (ghosty (state_of (update (1/2) scenario))) = Num (3003/10) \<and>
        velocity (ghosty (state_of (handleKeyPress ''Space'' scenario))) = Num (-6) \<and>
        velocity (ghosty (state_of (update (1/2) (state_of (handleKeyPress ''Space'' scenario))))) =
          Num (-57/10) \<and>
        gy (ghosty (state_of (update (1/2) (state_of (handleKeyPress ''Space'' scenario))))) =
          Num (2943/10)"
    by blast
  have u: "gameRunning unconfigured \<and> \<not> gameOver unconfigured \<and> config unconfigured = None"
    using unconfigured_facts by blast
  from update_integrates_first[of unconfigured _ "1/2"] u
  have 2: "update (1/2) unconfigured = Throws TypeError unconfigured"
    by blast
  from scenario_facts 1 u 2 show ?thesis by blast
qed

text \<open>
  The statement that every running, non-terminal engine integrates is refuted by the engine
  that \<open>start\<close> leaves when no profile was bound: it is running and not terminal, \<open>update\<close>
  throws, and the velocity and the position stay 0 and 300.
\<close>

theorem update_integrates_nothing_unconfigured_counterexample:
  "reachable unconfigured \<and> gameRunning unconfigured \<and> \<not> gameOver unconfigured \<and>
   velocity (ghosty unconfigured) = Num 0 \<and> gy (ghosty unconfigured) = Num 300 \<and>
   \<not> returns (update (1/2) unconfigured) \<and>
   velocity (ghosty (state_of (update (1/2) unconfigured))) = Num 0 \<and>
   gy (ghosty (state_of (update (1/2) unconfigured))) = Num 300"
  using unconfigured_facts unconfigured_reachable by (simp add: update_def)


subsection \<open>The impulse\<close>

text \<open>
  C4 (as the code has it). The impulse reaches the engine as a press of the space bar
  (\<open>handleKeyPress\<close>, the only caller of \<open>jump\<close>). When the engine is running and not terminal
  and \<open>config\<close> is bound, the press overwrites the actor's velocity with the \<open>jumpStrength\<close> of
  \<open>config\<close>, whatever the velocity was, and changes no other field of the engine. When the
  engine is not running or is terminal, the press changes nothing and is not an error;
  neither is any other key. When the engine is running and not terminal and no \<open>config\<close> is
  bound, the press is an error: \<open>jump\<close> throws a TypeError and the velocity is not set.
\<close>

theorem handleKeyPress_impulse:
  "(gameRunning s \<and> \<not> gameOver s \<and> config s = Some c \<longrightarrow>
      handleKeyPress ''Space'' s =
        Returns (s\<lparr>ghosty := (ghosty s)\<lparr>velocity := jumpStrength c\<rparr>,
                   effects := effects s @ [PreventDefault, GhostyJumped (jumpStrength c)]\<rparr>) \<and>
      velocity (ghosty (state_of (handleKeyPress ''Space'' s))) = jumpStrength c) \<and>
   (gameRunning s \<and> \<not> gameOver s \<and> config s = None \<longrightarrow>
      handleKeyPress ''Space'' s = Throws TypeError (s\<lparr>effects := effects s @ [PreventDefault]\<rparr>) \<and>
      ghosty (state_of (handleKeyPress ''Space'' s)) = ghosty s) \<and>
   (\<not> (gameRunning s \<and> \<not> gameOver s) \<longrightarrow> handleKeyPress code s = Returns s) \<and>
   (code \<noteq> ''Space'' \<longrightarrow> handleKeyPress code s = Returns s)"
  by (simp add: handleKeyPress_def jump_def)

theorem handleKeyPress_impulse_witness:
  "gameRunning scenario \<and> \<not> gameOver scenario \<and> config scenario = difficulties ''easy'' \<and>
   velocity (ghosty (state_of (handleKeyPress ''Space'' scenario))) = Num (-6) \<and>
   velocity (ghosty (state_of (handleKeyPress ''Space''
      (scenario\<lparr>ghosty := (ghosty scenario)\<lparr>velocity := Num 5\<rparr>\<rparr>)))) = Num (-6) \<and>
   \<not> gameRunning (stop scenario) \<and>
   handleKeyPress ''Space'' (stop scenario) = Returns (stop scenario) \<and>
   gameOver (endGame ''wall'' scenario) \<and>
   handleKeyPress ''Space'' (endGame ''wall'' scenario) = Returns (endGame ''wall'' scenario) \<and>
   gameRunning unconfigured \<and> \<not> gameOver unconfigured \<and> config unconfigured = None \<and>
   ghosty (state_of (handleKeyPress ''Space'' unconfigured)) = ghosty unconfigured"
proof -
  let ?c = "\<lparr>gravity = Num (3/10), jumpStrength = Num (-6), wallSpeed = Num 2,
             gapSize = Num 200, wallSpacing = Num 300\<rparr>"
  have f: "gameRunning scenario \<and> \<not> gameOver scenario \<and> config scenario = Some ?c"
    using scenario_facts by simp
  let ?s5 = "scenario\<lparr>ghosty := (ghosty scenario)\<lparr>velocity := Num 5\<rparr>\<rparr>"
  have f5: "gameRunning ?s5 \<and> \<not> gameOver ?s5 \<and> config ?s5 = Some ?c"
    using f by simp
  have st: "\<not> (gameRunning (stop scenario) \<and> \<not> gameOver (stop scenario))"
    by (simp add: stop_def)
  have en: "\<not> (gameRunning (endGame ''wall'' scenario) \<and> \<not> gameOver (endGame ''wall'' scenario))"
    by (simp add: endGame_def)
  have u: "gameRunning unconfigured \<and> \<not> gameOver unconfigured \<and> config unconfigured = None"
    using unconfigured_facts by blast
  from handleKeyPress_impulse[of scenario ?c] f
  have 1: "velocity (ghosty (state_of (handleKeyPress ''Space'' scenario))) = jumpStrength ?c"
    by blast
  from handleKeyPress_impulse[of ?s5 ?c] f5
  have 2: "velocity (ghosty (state_of (handleKeyPress ''Space'' ?s5))) = jumpStrength ?c"
    by blast
  from handleKeyPress_impulse[of "stop scenario" _ "''Space''"] st
  have 3: "handleKeyPress ''Space'' (stop scenario) = Returns (stop scenario)"
    by blast
  from handleKeyPress_impulse[of "endGame ''wall'' scenario" _ "''Space''"] en
  have 4: "handleKeyPress ''Space'' (endGame ''wall'' scenario) = Returns (endGame ''wall'' scenario)"
    by blast
  from handleKeyPress_impulse[of unconfigured] u
  have 7: "ghosty (state_of (handleKeyPress ''Space'' unconfigured)) = ghosty unconfigured"
    by blast
  have 5: "\<not> gameRunning (stop scenario)" by (simp add: stop_def)
  have 6: "gameOver (endGame ''wall'' scenario)" by (simp add: endGame_def)
  have j: "jumpStrength ?c = Num (-6)" by simp
  from scenario_facts 1 2 3 4 5 6 7 u show ?thesis unfolding j by blast
qed

text \<open>
  The statement that the press sets the velocity in every running, non-terminal engine, and
  is never an error, is refuted by the engine that \<open>start\<close> leaves when no profile was bound:
  the press throws a TypeError and the velocity stays 0.
\<close>

theorem handleKeyPress_throws_unconfigured_counterexample:
  "reachable unconfigured \<and> gameRunning unconfigured \<and> \<not> gameOver unconfigured \<and>
   velocity (ghosty unconfigured) = Num 0 \<and>
   \<not> returns (handleKeyPress ''Space'' unconfigured) \<and>
   velocity (ghosty (state_of (handleKeyPress ''Space'' unconfigured))) = Num 0"
  using unconfigured_facts unconfigured_reachable by (simp add: handleKeyPress_def jump_def)

text \<open>
  \<open>jump\<close> itself tests no flag: the guard is in \<open>handleKeyPress\<close>, which the engine registers
  as the key listener and which is the only caller of \<open>jump\<close>.
\<close>

lemma jump_has_no_guard:
  "config s = Some c \<Longrightarrow> velocity (ghosty (state_of (jump s))) = jumpStrength c"
  by (simp add: jump_def)

subsection \<open>Binding a profile\<close>

lemma objectPrototypeKeys_not_table:
  "''easy'' \<notin> set objectPrototypeKeys" "''medium'' \<notin> set objectPrototypeKeys"
   "''hard'' \<notin> set objectPrototypeKeys"
  by (simp_all add: objectPrototypeKeys_def)

lemma difficulties_table:
  "difficulties ''easy'' =
     Some \<lparr>gravity = Num (3/10), jumpStrength = Num (-6), wallSpeed = Num 2,
           gapSize = Num 200, wallSpacing = Num 300\<rparr>"
  "difficulties ''medium'' =
     Some \<lparr>gravity = Num (4/10), jumpStrength = Num (-7), wallSpeed = Num 3,
           gapSize = Num 160, wallSpacing = Num 280\<rparr>"
  "difficulties ''hard'' =
     Some \<lparr>gravity = Num (5/10), jumpStrength = Num (-8), wallSpeed = Num 4,
           gapSize = Num 120, wallSpacing = Num 250\<rparr>"
  by (simp_all add: difficulties_def)

lemma difficulties_inherited:
  "d \<in> set objectPrototypeKeys \<Longrightarrow> difficulties d = Some inherited"
  using objectPrototypeKeys_not_table by (auto simp: difficulties_def)

lemma difficulties_None:
  "difficulties d = None \<longleftrightarrow> d \<notin> set (''easy'' # ''medium'' # ''hard'' # objectPrototypeKeys)"
  by (simp add: difficulties_def)

text \<open>
  C5 (as the code has it). \<open>setDifficulty\<close> never fails and checks no state: in every engine
  state, running or not, it returns and binds the name and what the lookup in the table
  yields for it: the table's entry for easy, medium and hard, the inherited member for a
  name that \<open>Object.prototype\<close> defines, and \<open>undefined\<close> for every other name. It logs the
  name and changes no other field of the engine: the flags, the score, the actor, the
  obstacles, the dimensions and \<open>lastWallX\<close> are as before.
\<close>

theorem setDifficulty_always_binds:
  "exec (SetDifficulty d) s = Returns (setDifficulty d s) \<and>
   setDifficulty d s =
     s\<lparr>difficulty := Some d, config := difficulties d, effects := effects s @ [DifficultySet d]\<rparr> \<and>
   config (setDifficulty d s) = difficulties d \<and>
   difficulty (setDifficulty d s) = Some d \<and>
   gameRunning (setDifficulty d s) = gameRunning s \<and>
   gameOver (setDifficulty d s) = gameOver s \<and>
   score (setDifficulty d s) = score s \<and>
   ghosty (setDifficulty d s) = ghosty s \<and>
   walls (setDifficulty d s) = walls s \<and>
   width (setDifficulty d s) = width s \<and>
   height (setDifficulty d s) = height s \<and>
   lastWallX (setDifficulty d s) = lastWallX s \<and>
   effects (setDifficulty d s) = effects s @ [DifficultySet d] \<and>
   difficulties ''easy'' =
     Some \<lparr>gravity = Num (3/10), jumpStrength = Num (-6), wallSpeed = Num 2,
           gapSize = Num 200, wallSpacing = Num 300\<rparr> \<and>
   difficulties ''medium'' =
     Some \<lparr>gravity = Num (4/10), jumpStrength = Num (-7), wallSpeed = Num 3,
           gapSize = Num 160, wallSpacing = Num 280\<rparr> \<and>
   difficulties ''hard'' =
     Some \<lparr>gravity = Num (5/10), jumpStrength = Num (-8), wallSpeed = Num 4,
           gapSize = Num 120, wallSpacing = Num 250\<rparr> \<and>
   (d \<in> set objectPrototypeKeys \<longrightarrow> difficulties d = Some inherited) \<and>
   (d \<notin> set (''easy'' # ''medium'' # ''hard'' # objectPrototypeKeys) \<longrightarrow> difficulties d = None)"
  by (simp add: setDifficulty_def difficulties_table difficulties_inherited difficulties_None
      del: set_simps)

theorem setDifficulty_always_binds_witness:
  "gameRunning scenario \<and>
   exec (SetDifficulty ''hard'') scenario = Returns (setDifficulty ''hard'' scenario) \<and>
   config (setDifficulty ''hard'' scenario) = difficulties ''hard'' \<and>
   gameRunning (setDifficulty ''hard'' scenario) \<and>
   ''toString'' \<in> set objectPrototypeKeys \<and>
   config (setDifficulty ''toString'' scenario) = Some inherited \<and>
   ''insane'' \<notin> set (''easy'' # ''medium'' # ''hard'' # objectPrototypeKeys) \<and>
   config (setDifficulty ''insane'' scenario) = None"
proof -
  have k: "''toString'' \<in> set objectPrototypeKeys"
    by (simp add: objectPrototypeKeys_def)
  have n: "''insane'' \<notin> set (''easy'' # ''medium'' # ''hard'' # objectPrototypeKeys)"
    by (simp add: objectPrototypeKeys_def)
  from setDifficulty_always_binds[of "''hard''" scenario] scenario_facts
  have 1: "exec (SetDifficulty ''hard'') scenario = Returns (setDifficulty ''hard'' scenario) \<and>
      config (setDifficulty ''hard'' scenario) = difficulties ''hard'' \<and>
      gameRunning (setDifficulty ''hard'' scenario)"
    by simp
  from setDifficulty_always_binds[of "''toString''" scenario] k
  have 2: "config (setDifficulty ''toString'' scenario) = Some inherited" by simp
  from setDifficulty_always_binds[of "''insane''" scenario] n
  have 3: "config (setDifficulty ''insane'' scenario) = None" by simp
  from scenario_facts 1 2 3 k n show ?thesis by blast
qed

text \<open>
  The statement that binding fails while a run is active is refuted by a running engine whose
  profile \<open>setDifficulty\<close> rebinds from easy to hard; the call returns.
\<close>

theorem setDifficulty_rebinds_running_counterexample:
  "gameRunning (state_of (start (1/2) (setDifficulty ''easy'' (FlappyKiroGame \<lparr>cwidth = 800, cheight = 600\<rparr>)))) \<and>
   returns (exec (SetDifficulty ''hard'')
      (state_of (start (1/2) (setDifficulty ''easy'' (FlappyKiroGame \<lparr>cwidth = 800, cheight = 600\<rparr>))))) \<and>
   config (state_of (start (1/2) (setDifficulty ''easy'' (FlappyKiroGame \<lparr>cwidth = 800, cheight = 600\<rparr>))))
     = difficulties ''easy'' \<and>
   config (state_of (exec (SetDifficulty ''hard'')
      (state_of (start (1/2) (setDifficulty ''easy'' (FlappyKiroGame \<lparr>cwidth = 800, cheight = 600\<rparr>))))))
     = difficulties ''hard'' \<and>
   difficulties ''hard'' \<noteq> difficulties ''easy''"
  by (simp add: engine_defs)

subsection \<open>Totality of update\<close>

lemma ran_difficulties:
  assumes "c \<in> ran difficulties"
  shows "c = inherited \<or>
     (\<exists>g v sp. gravity c = Num g \<and> 0 < g \<and> wallSpeed c = Num v \<and> 0 < v \<and> v \<le> 4 \<and>
               wallSpacing c = Num sp \<and> 250 \<le> sp)"
proof -
  from assms obtain d where d: "difficulties d = Some c" by (auto simp: ran_def)
  consider "d = ''easy''" | "d = ''medium''" | "d = ''hard''"
    | "d \<noteq> ''easy''" "d \<noteq> ''medium''" "d \<noteq> ''hard''" by blast
  then show ?thesis
  proof cases
    case 1
    with d have "c = \<lparr>gravity = Num (3/10), jumpStrength = Num (-6), wallSpeed = Num 2,
           gapSize = Num 200, wallSpacing = Num 300\<rparr>" by (simp add: difficulties_def)
    then show ?thesis
      by (intro disjI2 exI[of _ "3/10"] exI[of _ 2] exI[of _ 300]) simp
  next
    case 2
    with d have "c = \<lparr>gravity = Num (4/10), jumpStrength = Num (-7), wallSpeed = Num 3,
           gapSize = Num 160, wallSpacing = Num 280\<rparr>" by (simp add: difficulties_def)
    then show ?thesis
      by (intro disjI2 exI[of _ "4/10"] exI[of _ 3] exI[of _ 280]) simp
  next
    case 3
    with d have "c = \<lparr>gravity = Num (5/10), jumpStrength = Num (-8), wallSpeed = Num 4,
           gapSize = Num 120, wallSpacing = Num 250\<rparr>" by (simp add: difficulties_def)
    then show ?thesis
      by (intro disjI2 exI[of _ "5/10"] exI[of _ 4] exI[of _ 250]) simp
  next
    case 4
    with d have "c = inherited" by (simp add: difficulties_def split: if_splits)
    then show ?thesis by simp
  qed
qed

lemma poisoned_facts:
  "start (1/2) (setDifficulty ''toString'' (FlappyKiroGame \<lparr>cwidth = 800, cheight = 600\<rparr>)) =
     Returns poisoned \<and>
   gameRunning poisoned \<and> \<not> gameOver poisoned \<and> config poisoned = Some inherited \<and>
   velocity (ghosty poisoned) = NaN \<and> gy (ghosty poisoned) = NaN \<and>
   map wx (walls poisoned) = [NaN]"
  by (simp add: poisoned_def engine_defs objectPrototypeKeys_def inherited_def)

lemma poisoned_fixed: "update (1/2) poisoned = Returns poisoned"
  by (simp add: poisoned_def engine_defs objectPrototypeKeys_def inherited_def)

text \<open>
  C6 (as the code has it). \<open>update\<close> returns exactly when the engine is not running, is
  terminal, or has \<open>config\<close> bound; \<open>config\<close> is unbound in a new engine, and \<open>setDifficulty\<close>
  leaves it unbound exactly for the names that neither the table nor \<open>Object.prototype\<close>
  defines. \<open>update\<close> leaves the engine unchanged when the engine is not running or is
  terminal. On a running, non-terminal engine with \<open>config\<close> bound it returns the engine that
  its five blocks compute, which differs from the engine before whenever the velocity is a
  number and the gravity a number other than 0, as it is in every profile of the table. On
  a running, non-terminal engine with no \<open>config\<close> bound it throws a TypeError and leaves the
  engine unchanged.
\<close>

theorem update_total_when_configured:
  "(returns (update r s) \<longleftrightarrow> \<not> gameRunning s \<or> gameOver s \<or> config s \<noteq> None) \<and>
   config (FlappyKiroGame cv) = None \<and>
   (config (setDifficulty d s) = None \<longleftrightarrow>
      d \<notin> set (''easy'' # ''medium'' # ''hard'' # objectPrototypeKeys)) \<and>
   (\<not> gameRunning s \<or> gameOver s \<longrightarrow> update r s = Returns s) \<and>
   (gameRunning s \<and> \<not> gameOver s \<and> config s = None \<longrightarrow> update r s = Throws TypeError s) \<and>
   (gameRunning s \<and> \<not> gameOver s \<and> config s = Some c \<longrightarrow>
      update r s = Returns (checkCollisions (removeOffscreen (updateWalls c
            (generateWalls r c (updatePhysics c s)))))) \<and>
   (gameRunning s \<and> \<not> gameOver s \<and> config s = Some c \<and>
    velocity (ghosty s) = Num v \<and> gravity c = Num g \<and> g \<noteq> 0 \<longrightarrow>
      update r s \<noteq> Returns s) \<and>
   (c \<in> ran difficulties \<and> c \<noteq> inherited \<longrightarrow> (\<exists>g. gravity c = Num g \<and> g \<noteq> 0))"
proof -
  have 1: "returns (update r s) \<longleftrightarrow> \<not> gameRunning s \<or> gameOver s \<or> config s \<noteq> None"
    by (auto simp: update_def split: option.splits)
  have cf: "config (FlappyKiroGame cv) = None"
    by (simp add: FlappyKiroGame_def reset_def)
  have nm: "config (setDifficulty d s) = None \<longleftrightarrow>
      d \<notin> set (''easy'' # ''medium'' # ''hard'' # objectPrototypeKeys)"
    by (simp add: setDifficulty_def difficulties_None del: set_simps)
  have 2: "\<not> gameRunning s \<or> gameOver s \<longrightarrow> update r s = Returns s"
    by (simp add: update_def)
  have 3: "gameRunning s \<and> \<not> gameOver s \<and> config s = None \<longrightarrow> update r s = Throws TypeError s"
    by (simp add: update_def)
  have 4: "gameRunning s \<and> \<not> gameOver s \<and> config s = Some c \<longrightarrow>
      update r s = Returns (checkCollisions (removeOffscreen (updateWalls c
            (generateWalls r c (updatePhysics c s)))))"
    by (simp add: update_def)
  have 5: "gameRunning s \<and> \<not> gameOver s \<and> config s = Some c \<and>
    velocity (ghosty s) = Num v \<and> gravity c = Num g \<and> g \<noteq> 0 \<longrightarrow>
      update r s \<noteq> Returns s"
  proof (intro impI)
    assume h: "gameRunning s \<and> \<not> gameOver s \<and> config s = Some c \<and>
      velocity (ghosty s) = Num v \<and> gravity c = Num g \<and> g \<noteq> 0"
    then have run: "gameRunning s" and live: "\<not> gameOver s" and cfg: "config s = Some c"
      by simp_all
    have "velocity (ghosty (state_of (update r s))) = js_add (velocity (ghosty s)) (gravity c)"
      by (simp add: update_ghosty[OF run live cfg])
    with h have "velocity (ghosty (state_of (update r s))) \<noteq> velocity (ghosty s)" by simp
    then have "state_of (update r s) \<noteq> s" by auto
    then show "update r s \<noteq> Returns s" by auto
  qed
  have 6: "c \<in> ran difficulties \<and> c \<noteq> inherited \<longrightarrow> (\<exists>g. gravity c = Num g \<and> g \<noteq> 0)"
    using ran_difficulties[of c] by auto
  show ?thesis by (intro conjI) (rule 1 cf nm 2 3 4 5 6)+
qed

theorem update_total_when_configured_witness:
  "gameRunning scenario \<and> \<not> gameOver scenario \<and> config scenario \<noteq> None \<and>
   returns (update (1/2) scenario) \<and> update (1/2) scenario \<noteq> Returns scenario \<and>
   update (1/2) (stop scenario) = Returns (stop scenario) \<and>
   update (1/2) (scenario\<lparr>config := None\<rparr>) = Throws TypeError (scenario\<lparr>config := None\<rparr>) \<and>
   gameRunning poisoned \<and> \<not> gameOver poisoned \<and> config poisoned = Some inherited \<and>
   returns (update (1/2) poisoned)"
proof -
  let ?c = "\<lparr>gravity = Num (3/10), jumpStrength = Num (-6), wallSpeed = Num 2,
             gapSize = Num 200, wallSpacing = Num 300\<rparr>"
  have f: "gameRunning scenario \<and> \<not> gameOver scenario \<and> config scenario = Some ?c"
    using scenario_facts by simp
  have v: "velocity (ghosty scenario) = Num 0 \<and> gravity ?c = Num (3/10) \<and> (3/10::real) \<noteq> 0"
    using scenario_facts by simp
  have st: "\<not> gameRunning (stop scenario)" by (simp add: stop_def)
  have n: "gameRunning (scenario\<lparr>config := None\<rparr>) \<and> \<not> gameOver (scenario\<lparr>config := None\<rparr>) \<and>
           config (scenario\<lparr>config := None\<rparr>) = None"
    using f by simp
  have p: "gameRunning poisoned \<and> \<not> gameOver poisoned \<and> config poisoned = Some inherited"
    using poisoned_facts by blast
  from update_total_when_configured[of "1/2" scenario _ _ ?c 0 "3/10"] f v
  have 1: "returns (update (1/2) scenario) \<and> update (1/2) scenario \<noteq> Returns scenario"
    by blast
  from update_total_when_configured[of "1/2" "stop scenario"] st
  have 2: "update (1/2) (stop scenario) = Returns (stop scenario)"
    by blast
  from update_total_when_configured[of "1/2" "scenario\<lparr>config := None\<rparr>"] n
  have 3: "update (1/2) (scenario\<lparr>config := None\<rparr>) = Throws TypeError (scenario\<lparr>config := None\<rparr>)"
    by blast
  from update_total_when_configured[of "1/2" poisoned] p
  have 4: "returns (update (1/2) poisoned)"
    by simp
  from f 1 2 3 4 p show ?thesis by simp
qed

text \<open>
  The statement that \<open>update\<close> never faults, also after \<open>start\<close> without a bound profile, is refuted
  by \<open>start\<close> on a freshly constructed engine: \<open>start\<close> itself throws in its first tick, leaves
  the engine running, and every later \<open>update\<close> throws again. The statement that \<open>update\<close>
  leaves the engine unchanged only when the engine is not running or is terminal is refuted
  by the running engine that \<open>start\<close> leaves after the name toString was bound: its numbers
  are \<open>NaN\<close> and \<open>update\<close> returns it unchanged.
\<close>

theorem update_unconfigured_counterexample:
  "start (1/2) (FlappyKiroGame \<lparr>cwidth = 800, cheight = 600\<rparr>) =
     Throws TypeError (state_of (start (1/2) (FlappyKiroGame \<lparr>cwidth = 800, cheight = 600\<rparr>))) \<and>
   gameRunning (state_of (start (1/2) (FlappyKiroGame \<lparr>cwidth = 800, cheight = 600\<rparr>))) \<and>
   update (1/2) (state_of (start (1/2) (FlappyKiroGame \<lparr>cwidth = 800, cheight = 600\<rparr>))) =
     Throws TypeError (state_of (start (1/2) (FlappyKiroGame \<lparr>cwidth = 800, cheight = 600\<rparr>))) \<and>
   gameRunning poisoned \<and> \<not> gameOver poisoned \<and> update (1/2) poisoned = Returns poisoned"
  using poisoned_facts poisoned_fixed by (simp add: engine_defs)

subsection \<open>Reaching the terminal state\<close>

lemma js_gt_lt: "js_gt a b = js_lt b a"
  by (cases a; cases b) auto

lemma js_ge_le: "js_ge a b = js_le b a"
  by (cases a; cases b) auto

lemma boundaryViolation_js:
  "(js_le (gy (ghosty s)) (Num 0) \<or>
    js_ge (js_add (gy (ghosty s)) (Num (gheight (ghosty s)))) (Num (height s))) =
   boundaryViolation s"
  by (cases "gy (ghosty s)") (simp_all add: boundaryViolation_def)

lemma gapViolation_js:
  "((js_lt (Num (gx (ghosty s))) (js_add (wx w) (Num (wwidth w))) \<and>
     js_gt (js_add (Num (gx (ghosty s))) (Num (gwidth (ghosty s)))) (wx w)) \<and>
    (js_lt (gy (ghosty s)) (topHeight w) \<or>
     js_gt (js_add (gy (ghosty s)) (Num (gheight (ghosty s)))) (bottomY w))) =
   gapViolation s w"
  by (cases "wx w") (simp_all add: gapViolation_def js_gt_lt)

lemma wallCollisions_eq:
  "wallCollisions ws s = (if \<exists>w \<in> set ws. gapViolation s w then endGame ''wall'' s else s)"
proof (induction ws)
  case Nil
  then show ?case by simp
next
  case (Cons w ws)
  show ?case
  proof (cases "gapViolation s w")
    case True
    then show ?thesis using gapViolation_js[of s w] by auto
  next
    case False
    then have "wallCollisions (w # ws) s = wallCollisions ws s"
      using gapViolation_js[of s w] by auto
    with False Cons.IH show ?thesis by simp
  qed
qed

lemma checkCollisions_eq:
  "checkCollisions s =
     (if boundaryViolation s then endGame ''boundary'' s
      else if \<exists>w \<in> set (walls s). gapViolation s w then endGame ''wall'' s
      else s)"
  by (simp add: checkCollisions_def wallCollisions_eq boundaryViolation_js)

lemma endGame_collides [simp]:
  "boundaryViolation (endGame k s) = boundaryViolation s"
  "gapViolation (endGame k s) w = gapViolation s w"
  "walls (endGame k s) = walls s"
  by (simp_all add: endGame_def boundaryViolation_def gapViolation_def cong: jsval.case_cong)

lemma checkCollisions_gameOver:
  "\<not> gameOver m \<Longrightarrow> gameOver (checkCollisions m) = collides (checkCollisions m)"
  by (simp add: checkCollisions_eq collides_def) (simp add: endGame_def)

lemma checkCollisions_gameRunning:
  "gameRunning m \<Longrightarrow> \<not> gameOver m \<Longrightarrow>
     gameRunning (checkCollisions m) = (\<not> gameOver (checkCollisions m))"
  by (simp add: checkCollisions_eq endGame_def)

lemma checkCollisions_effects:
  "effects (checkCollisions m) =
     effects m @ (if boundaryViolation m then [Collision ''boundary'' (score m), GameOverEvent (score m) (difficulty m)]
                  else if \<exists>w \<in> set (walls m). gapViolation m w
                       then [Collision ''wall'' (score m), GameOverEvent (score m) (difficulty m)]
                  else [])"
  by (simp add: checkCollisions_eq endGame_def)

lemma checkCollisions_frame:
  "score (checkCollisions m) = score m \<and> difficulty (checkCollisions m) = difficulty m \<and>
   walls (checkCollisions m) = walls m \<and> config (checkCollisions m) = config m \<and>
   width (checkCollisions m) = width m \<and> lastWallX (checkCollisions m) = lastWallX m \<and>
   height (checkCollisions m) = height m"
  by (simp add: checkCollisions_eq endGame_def)

lemma beforeCheck_flags:
  "gameRunning (beforeCheck r c s) = gameRunning s \<and> gameOver (beforeCheck r c s) = gameOver s \<and>
   difficulty (beforeCheck r c s) = difficulty s \<and> config (beforeCheck r c s) = config s \<and>
   width (beforeCheck r c s) = width s \<and> height (beforeCheck r c s) = height s"
  by (simp add: beforeCheck_def removeOffscreen_frame updateWalls_def generateWalls_def
      generateWall_def updatePhysics_def Let_def)

lemma beforeCheck_effects:
  "\<exists>es. effects (beforeCheck r c s) = effects s @ es \<and> (\<forall>e \<in> set es. \<exists>n. e = ScoreIncreased n)"
proof -
  have "effects (updateWalls c (generateWalls r c (updatePhysics c s))) = effects s"
    by (simp add: updateWalls_def generateWalls_def generateWall_def updatePhysics_def Let_def)
  with removeOffscreen_effects[of "updateWalls c (generateWalls r c (updatePhysics c s))"]
  show ?thesis by (simp add: beforeCheck_def)
qed

lemma filter_scoreIncreased:
  "\<forall>e \<in> set es. \<exists>n. e = ScoreIncreased n \<Longrightarrow>
     filter isGameOverEvent es = [] \<and> filter isCollision es = []"
  by (induction es) auto

lemma update_terminal:
  assumes "gameRunning s" and "\<not> gameOver s" and "config s = Some c"
  shows "gameOver (state_of (update r s)) = collides (state_of (update r s))"
    and "gameRunning (state_of (update r s)) = (\<not> gameOver (state_of (update r s)))"
    and "filter isGameOverEvent (newEffects s (state_of (update r s))) =
           (if gameOver (state_of (update r s))
            then [GameOverEvent (score (state_of (update r s))) (difficulty (state_of (update r s)))]
            else [])"
    and "filter isCollision (newEffects s (state_of (update r s))) =
           (if gameOver (state_of (update r s))
            then [Collision (if boundaryViolation (state_of (update r s)) then ''boundary'' else ''wall'')
                            (score (state_of (update r s)))]
            else [])"
proof -
  let ?m = "beforeCheck r c s"
  have u: "state_of (update r s) = checkCollisions ?m"
    by (simp add: update_running[OF assms] beforeCheck_def)
  have mr: "gameRunning ?m" and ml: "\<not> gameOver ?m"
    using assms beforeCheck_flags[of r c s] by simp_all
  show "gameOver (state_of (update r s)) = collides (state_of (update r s))"
    unfolding u by (rule checkCollisions_gameOver[OF ml])
  show "gameRunning (state_of (update r s)) = (\<not> gameOver (state_of (update r s)))"
    unfolding u by (rule checkCollisions_gameRunning[OF mr ml])
  obtain es where es: "effects ?m = effects s @ es" "\<forall>e \<in> set es. \<exists>n. e = ScoreIncreased n"
    using beforeCheck_effects[of r c s] by blast
  note none = filter_scoreIncreased[OF es(2)]
  have ne: "newEffects s (checkCollisions ?m) = es @
      (if boundaryViolation ?m then [Collision ''boundary'' (score ?m), GameOverEvent (score ?m) (difficulty ?m)]
       else if \<exists>w \<in> set (walls ?m). gapViolation ?m w
            then [Collision ''wall'' (score ?m), GameOverEvent (score ?m) (difficulty ?m)]
       else [])"
    by (simp add: newEffects_def checkCollisions_effects es(1))
  have go: "gameOver (checkCollisions ?m) = (boundaryViolation ?m \<or> (\<exists>w \<in> set (walls ?m). gapViolation ?m w))"
    using ml by (simp add: checkCollisions_eq endGame_def)
  have bv: "boundaryViolation (checkCollisions ?m) = boundaryViolation ?m"
    by (simp add: checkCollisions_eq)
  show "filter isGameOverEvent (newEffects s (state_of (update r s))) =
           (if gameOver (state_of (update r s))
            then [GameOverEvent (score (state_of (update r s))) (difficulty (state_of (update r s)))]
            else [])"
    unfolding u ne go using none by (simp add: checkCollisions_frame)
  show "filter isCollision (newEffects s (state_of (update r s))) =
           (if gameOver (state_of (update r s))
            then [Collision (if boundaryViolation (state_of (update r s)) then ''boundary'' else ''wall'')
                            (score (state_of (update r s)))]
            else [])"
    unfolding u ne go bv using none by (simp add: checkCollisions_frame)
qed

lemma update_gameOver_any:
  "gameOver (state_of (update r s)) \<Longrightarrow> gameOver s \<or> collides (state_of (update r s))"
proof (cases "gameRunning s \<and> \<not> gameOver s")
  case False
  then have "update r s = Returns s" by (auto simp: update_def)
  moreover assume "gameOver (state_of (update r s))"
  ultimately show ?thesis by simp
next
  case True
  assume go: "gameOver (state_of (update r s))"
  show ?thesis
  proof (cases "config s")
    case None
    with True have "update r s = Throws TypeError s" by (simp add: update_def)
    with go show ?thesis by simp
  next
    case (Some c)
    with True update_terminal(1)[of s c r] go show ?thesis by simp
  qed
qed

lemma collides_effects [simp]: "collides (s\<lparr>effects := es\<rparr>) = collides s"
  by (simp add: collides_def boundaryViolation_def gapViolation_def cong: jsval.case_cong)

lemma gameLoop_gameOver_any:
  "gameOver (state_of (gameLoop r s)) \<Longrightarrow> gameOver s \<or> collides (state_of (gameLoop r s))"
proof (cases "gameRunning s")
  case False
  assume "gameOver (state_of (gameLoop r s))"
  with False show ?thesis by (simp add: gameLoop_def)
next
  case True
  assume go: "gameOver (state_of (gameLoop r s))"
  show ?thesis
  proof (cases "update r s")
    case (Returns s')
    with True go update_gameOver_any[of r s] show ?thesis
      by (simp add: gameLoop_def)
  next
    case (Throws e s')
    with True go update_gameOver_any[of r s] show ?thesis
      by (simp add: gameLoop_def)
  qed
qed

lemma start_gameOver_any:
  "gameOver (state_of (start r s)) \<Longrightarrow> collides (state_of (start r s))"
  using gameLoop_gameOver_any[of r "(reset s)\<lparr>gameRunning := True, gameOver := False,
                  effects := effects (reset s) @ [AddKeydownListener, GameStarted (difficulty (reset s))]\<rparr>"]
  by (simp add: start_def Let_def)

lemma nonstep_gameOver:
  "\<not> isStep k \<Longrightarrow> gameOver (state_of (exec k s)) = gameOver s"
  by (cases k) (auto simp: setDifficulty_def stop_def handleKeyPress_def jump_def split: option.splits)




lemma newEffects_append: "effects s' = effects s @ es \<Longrightarrow> newEffects s s' = es"
  by (simp add: newEffects_def)

lemma update_prefix: "\<exists>es. effects (state_of (update r s)) = effects s @ es"
proof (cases "gameRunning s \<and> \<not> gameOver s")
  case False
  then show ?thesis by (auto simp: update_def)
next
  case True
  show ?thesis
  proof (cases "config s")
    case None
    with True show ?thesis by (simp add: update_def)
  next
    case (Some c)
    obtain es where "effects (beforeCheck r c s) = effects s @ es"
      using beforeCheck_effects[of r c s] by blast
    with True Some show ?thesis
      by (simp add: update_def checkCollisions_effects beforeCheck_def[symmetric])
  qed
qed

lemma update_events:
  "stepEvents s (state_of (update r s)) (gameOver (state_of (update r s)) \<and> \<not> gameOver s)"
proof (cases "gameRunning s \<and> \<not> gameOver s")
  case False
  then have "update r s = Returns s" by (auto simp: update_def)
  then show ?thesis by (simp add: stepEvents_def newEffects_def)
next
  case True
  show ?thesis
  proof (cases "config s")
    case None
    with True have "update r s = Throws TypeError s" by (simp add: update_def)
    with True show ?thesis by (simp add: stepEvents_def newEffects_def)
  next
    case (Some c)
    from True have run: "gameRunning s" and live: "\<not> gameOver s" by simp_all
    note t = update_terminal[OF run live Some, of r]
    from t live show ?thesis
      by (simp add: stepEvents_def reason_def)
  qed
qed

lemma stepEvents_effects:
  assumes "stepEvents s u b" and "effects u = effects s @ es"
    and "filter isGameOverEvent extra = []" and "filter isCollision extra = []"
  shows "stepEvents s (u\<lparr>effects := effects u @ extra\<rparr>) b"
proof -
  have n: "newEffects s u = es" by (rule newEffects_append[OF assms(2)])
  have n': "newEffects s (u\<lparr>effects := effects u @ extra\<rparr>) = es @ extra"
    using assms(2) by (simp add: newEffects_def)
  have r: "reason (u\<lparr>effects := effects u @ extra\<rparr>) = reason u"
    by (simp add: reason_def boundaryViolation_def cong: jsval.case_cong)
  from assms(1) show ?thesis
    unfolding stepEvents_def n n' r using assms(3,4) by simp
qed

lemma gameLoop_events:
  "stepEvents s (state_of (gameLoop r s)) (gameOver (state_of (gameLoop r s)) \<and> \<not> gameOver s)"
proof (cases "gameRunning s")
  case False
  then show ?thesis by (simp add: gameLoop_def stepEvents_def newEffects_def)
next
  case True
  show ?thesis
  proof (cases "update r s")
    case (Returns u)
    obtain es where es: "effects u = effects s @ es"
      using update_prefix[of r s] Returns by auto
    have "stepEvents s u (gameOver u \<and> \<not> gameOver s)"
      using update_events[of s r] Returns by simp
    from stepEvents_effects[OF this es, of "[Render, RequestAnimationFrame]"]
    show ?thesis using True Returns by (simp add: gameLoop_def)
  next
    case (Throws e u)
    have "stepEvents s u (gameOver u \<and> \<not> gameOver s)"
      using update_events[of s r] Throws by simp
    then show ?thesis using True Throws by (simp add: gameLoop_def)
  qed
qed

lemma gameLoop_prefix: "\<exists>es. effects (state_of (gameLoop r s)) = effects s @ es"
  using update_prefix[of r s]
  by (cases "update r s") (auto simp: gameLoop_def)

lemma start_events:
  "stepEvents s (state_of (start r s)) (gameOver (state_of (start r s)))"
proof -
  let ?s2 = "(reset s)\<lparr>gameRunning := True, gameOver := False,
     effects := effects (reset s) @ [AddKeydownListener, GameStarted (difficulty (reset s))]\<rparr>"
  let ?st = "state_of (gameLoop r ?s2)"
  have st: "state_of (start r s) = ?st" by (simp add: start_def Let_def)
  have ev: "stepEvents ?s2 ?st (gameOver ?st)"
    using gameLoop_events[of ?s2 r] by simp
  obtain es where es: "effects ?st = effects ?s2 @ es"
    using gameLoop_prefix[of r ?s2] by blast
  have e2: "effects ?s2 = effects s @ [AddKeydownListener, GameStarted (difficulty (reset s))]"
    by (simp add: reset_def)
  have n2: "newEffects ?s2 ?st = es" by (rule newEffects_append[OF es])
  have n: "newEffects s ?st = [AddKeydownListener, GameStarted (difficulty (reset s))] @ es"
    using es e2 by (simp add: newEffects_def)
  from ev show ?thesis
    unfolding st stepEvents_def n n2 by simp
qed

lemma nonstep_events:
  "\<not> isStep k \<Longrightarrow> stepEvents s (state_of (exec k s)) False"
  by (cases k)
     (auto simp: stepEvents_def newEffects_def setDifficulty_def stop_def handleKeyPress_def
        jump_def split: option.splits)

lemma exec_events: "stepEvents s (state_of (exec k s)) (endsRun k s)"
proof (cases k)
  case (SetDifficulty d)
  then show ?thesis
    using nonstep_events[of k s] nonstep_gameOver[of k s] by (simp add: endsRun_def)
next
  case (Start r)
  then show ?thesis using start_events[of s r] by (auto simp: endsRun_def)
next
  case Stop
  then show ?thesis
    using nonstep_events[of k s] nonstep_gameOver[of k s] by (simp add: endsRun_def)
next
  case (KeyPress code)
  then show ?thesis
    using nonstep_events[of k s] nonstep_gameOver[of k s] by (simp add: endsRun_def)
next
  case (Update r)
  then show ?thesis using update_events[of s r] by (simp add: endsRun_def)
next
  case (GameLoop r)
  then show ?thesis using gameLoop_events[of s r] by (simp add: endsRun_def)
qed

lemma gameLoop_terminal:
  assumes "gameRunning s" and "\<not> gameOver s" and "config s = Some c"
  shows "gameOver (state_of (gameLoop r s)) = collides (state_of (gameLoop r s))"
    and "gameRunning (state_of (gameLoop r s)) = (\<not> gameOver (state_of (gameLoop r s)))"
  using update_terminal(1,2)[OF assms, of r] assms update_running[OF assms, of r]
  by (simp_all add: gameLoop_def)

lemma start_terminal:
  assumes "config s = Some c"
  shows "gameOver (state_of (start r s)) = collides (state_of (start r s))"
    and "gameRunning (state_of (start r s)) = (\<not> gameOver (state_of (start r s)))"
proof -
  let ?s2 = "(reset s)\<lparr>gameRunning := True, gameOver := False,
     effects := effects (reset s) @ [AddKeydownListener, GameStarted (difficulty (reset s))]\<rparr>"
  have st: "state_of (start r s) = state_of (gameLoop r ?s2)" by (simp add: start_def Let_def)
  have a: "gameRunning ?s2" and b: "\<not> gameOver ?s2" and c: "config ?s2 = Some c"
    using assms by (simp_all add: reset_def)
  show "gameOver (state_of (start r s)) = collides (state_of (start r s))"
    unfolding st by (rule gameLoop_terminal(1)[OF a b c])
  show "gameRunning (state_of (start r s)) = (\<not> gameOver (state_of (start r s)))"
    unfolding st by (rule gameLoop_terminal(2)[OF a b c])
qed

lemma step_terminal:
  assumes "isStep k" and "config s = Some c" and "isStart k \<or> (gameRunning s \<and> \<not> gameOver s)"
  shows "gameOver (state_of (exec k s)) = collides (state_of (exec k s)) \<and>
         gameRunning (state_of (exec k s)) = (\<not> gameOver (state_of (exec k s)))"
proof (cases k)
  case (Start r)
  then show ?thesis using start_terminal[OF assms(2), of r] by simp
next
  case (Update r)
  with assms(3) have "gameRunning s" "\<not> gameOver s" by simp_all
  from update_terminal(1,2)[OF this assms(2), of r] Update show ?thesis by simp
next
  case (GameLoop r)
  with assms(3) have "gameRunning s" "\<not> gameOver s" by simp_all
  from gameLoop_terminal[OF this assms(2), of r] GameLoop show ?thesis by simp
qed (use assms(1) in simp_all)


text \<open>
  C3 (as the code has it). The terminal flag is set only by a step: after any call it is set
  only if it was set before, or the call was a step (\<open>update\<close>, \<open>gameLoop\<close>, or \<open>start\<close> with
  its first tick) that found a boundary violation or a gap violation against a horizontally
  overlapping obstacle. Whenever a call ends the run (the engine is terminal after it and
  was not before, or the call is \<open>start\<close>), the call is such a step, the engine is terminal
  and not running, and the call has dispatched exactly one \<open>gameOver\<close> event, which carries
  the final score and the difficulty name, and logged exactly one collision, which carries
  the reason (boundary, else wall) and the final score. A call that does not end the run
  dispatches no \<open>gameOver\<close> event and logs no collision. A step of a running, non-terminal
  engine with \<open>config\<close> bound, and \<open>start\<close> with \<open>config\<close> bound, ends terminal exactly when it
  finds a violation, and otherwise leaves the engine running.
\<close>

theorem terminal_only_by_collision:
  "(gameOver (state_of (exec k s)) \<longrightarrow>
      (isStep k \<and> collides (state_of (exec k s))) \<or> (gameOver s \<and> \<not> isStart k)) \<and>
   (endsRun k s \<longrightarrow>
      isStep k \<and> collides (state_of (exec k s)) \<and> gameOver (state_of (exec k s)) \<and>
      \<not> gameRunning (state_of (exec k s))) \<and>
   filter isGameOverEvent (newEffects s (state_of (exec k s))) =
     (if endsRun k s
      then [GameOverEvent (score (state_of (exec k s))) (difficulty (state_of (exec k s)))]
      else []) \<and>
   filter isCollision (newEffects s (state_of (exec k s))) =
     (if endsRun k s
      then [Collision (if boundaryViolation (state_of (exec k s)) then ''boundary'' else ''wall'')
                      (score (state_of (exec k s)))]
      else []) \<and>
   (isStep k \<and> config s = Some c \<and> (isStart k \<or> (gameRunning s \<and> \<not> gameOver s)) \<longrightarrow>
      gameOver (state_of (exec k s)) = collides (state_of (exec k s)) \<and>
      gameRunning (state_of (exec k s)) = (\<not> gameOver (state_of (exec k s))))"
proof -
  let ?s' = "state_of (exec k s)"
  have a: "gameOver ?s' \<longrightarrow> (isStep k \<and> collides ?s') \<or> (gameOver s \<and> \<not> isStart k)"
  proof (cases k)
    case (SetDifficulty d)
    then show ?thesis using nonstep_gameOver[of k s] by simp
  next
    case (Start r0)
    then show ?thesis using start_gameOver_any[of r0 s] by simp
  next
    case Stop
    then show ?thesis using nonstep_gameOver[of k s] by simp
  next
    case (KeyPress code)
    then show ?thesis using nonstep_gameOver[of k s] by simp
  next
    case (Update r0)
    then show ?thesis using update_gameOver_any[of r0 s] by auto
  next
    case (GameLoop r0)
    then show ?thesis using gameLoop_gameOver_any[of r0 s] by auto
  qed
  have ev: "stepEvents s ?s' (endsRun k s)" by (rule exec_events)
  have b: "endsRun k s \<longrightarrow> isStep k \<and> collides ?s' \<and> gameOver ?s' \<and> \<not> gameRunning ?s'"
    using a ev by (auto simp: endsRun_def stepEvents_def)
  have c: "filter isGameOverEvent (newEffects s ?s') =
     (if endsRun k s then [GameOverEvent (score ?s') (difficulty ?s')] else [])"
    using ev by (simp add: stepEvents_def)
  have d: "filter isCollision (newEffects s ?s') =
     (if endsRun k s
      then [Collision (if boundaryViolation ?s' then ''boundary'' else ''wall'') (score ?s')]
      else [])"
    using ev by (simp add: stepEvents_def reason_def)
  have e: "isStep k \<and> config s = Some c \<and> (isStart k \<or> (gameRunning s \<and> \<not> gameOver s)) \<longrightarrow>
      gameOver ?s' = collides ?s' \<and> gameRunning ?s' = (\<not> gameOver ?s')"
    using step_terminal[of k s c] by blast
  show ?thesis by (intro conjI) (rule a b c d e)+
qed

lemma nearFloor_facts:
  "gameRunning nearFloor \<and> \<not> gameOver nearFloor \<and> config nearFloor = difficulties ''easy'' \<and>
   difficulty nearFloor = Some ''easy'' \<and> score nearFloor = 0"
  using scenario_facts
  by (simp add: nearFloor_def) (simp add: scenario_def reset_def setDifficulty_def)

lemma nearFloor_hits:
  "gameOver (state_of (gameLoop (1/2) nearFloor)) \<and>
   boundaryViolation (state_of (gameLoop (1/2) nearFloor)) \<and>
   score (state_of (gameLoop (1/2) nearFloor)) = 0 \<and>
   difficulty (state_of (gameLoop (1/2) nearFloor)) = Some ''easy''"
  by (simp add: nearFloor_def scenario_def engine_defs boundaryViolation_def)

theorem terminal_only_by_collision_witness:
  "gameRunning nearFloor \<and> \<not> gameOver nearFloor \<and> config nearFloor = difficulties ''easy'' \<and>
   isStep (GameLoop (1/2)) \<and>
   gameOver (state_of (exec (GameLoop (1/2)) nearFloor)) \<and>
   \<not> gameRunning (state_of (exec (GameLoop (1/2)) nearFloor)) \<and>
   collides (state_of (exec (GameLoop (1/2)) nearFloor)) \<and>
   filter isGameOverEvent (newEffects nearFloor (state_of (exec (GameLoop (1/2)) nearFloor))) =
     [GameOverEvent 0 (Some ''easy'')] \<and>
   filter isCollision (newEffects nearFloor (state_of (exec (GameLoop (1/2)) nearFloor))) =
     [Collision ''boundary'' 0] \<and>
   filter isGameOverEvent (newEffects nearFloor (state_of (exec Stop nearFloor))) = []"
proof -
  let ?k = "GameLoop (1/2)"
  let ?u = "state_of (exec ?k nearFloor)"
  have hit: "gameOver ?u \<and> boundaryViolation ?u \<and> score ?u = 0 \<and> difficulty ?u = Some ''easy''"
    using nearFloor_hits by simp
  have er: "endsRun ?k nearFloor"
    using hit nearFloor_facts by (simp add: endsRun_def)
  have ns: "\<not> endsRun Stop nearFloor"
    using nearFloor_facts by (simp add: endsRun_def stop_def)
  note t = terminal_only_by_collision[of ?k nearFloor]
  from t er have 1: "isStep ?k \<and> collides ?u \<and> gameOver ?u \<and> \<not> gameRunning ?u"
    by blast
  from t er have "filter isGameOverEvent (newEffects nearFloor ?u) =
      [GameOverEvent (score ?u) (difficulty ?u)]" by simp
  with hit have 2: "filter isGameOverEvent (newEffects nearFloor ?u) =
      [GameOverEvent 0 (Some ''easy'')]" by simp
  from t er have "filter isCollision (newEffects nearFloor ?u) =
      [Collision (if boundaryViolation ?u then ''boundary'' else ''wall'') (score ?u)]" by simp
  with hit have 3: "filter isCollision (newEffects nearFloor ?u) = [Collision ''boundary'' 0]"
    by simp
  from terminal_only_by_collision[of Stop nearFloor] ns
  have 4: "filter isGameOverEvent (newEffects nearFloor (state_of (exec Stop nearFloor))) = []"
    by simp
  from nearFloor_facts 1 2 3 4 show ?thesis by blast
qed

text \<open>
  The statement that the game-over signal carries the reason is refuted by two engines whose
  first tick is terminal, one at the boundary and one at a wall: both dispatch the same
  \<open>gameOver\<close> event; only the logged collisions differ.
\<close>

theorem gameOver_event_carries_no_reason_counterexample:
  "filter isGameOverEvent (effects (state_of (start 0 (setDifficulty ''easy''
       (FlappyKiroGame \<lparr>cwidth = 800, cheight = 80\<rparr>))))) = [GameOverEvent 0 (Some ''easy'')] \<and>
   filter isCollision (effects (state_of (start 0 (setDifficulty ''easy''
       (FlappyKiroGame \<lparr>cwidth = 800, cheight = 80\<rparr>))))) = [Collision ''boundary'' 0] \<and>
   filter isGameOverEvent (effects (state_of (start 0 (setDifficulty ''easy''
       (FlappyKiroGame \<lparr>cwidth = 120, cheight = 600\<rparr>))))) = [GameOverEvent 0 (Some ''easy'')] \<and>
   filter isCollision (effects (state_of (start 0 (setDifficulty ''easy''
       (FlappyKiroGame \<lparr>cwidth = 120, cheight = 600\<rparr>))))) = [Collision ''wall'' 0]"
  by (simp add: engine_defs)

subsection \<open>Scoring\<close>



lemma inv_effects [simp]: "engineInv (s\<lparr>effects := es\<rparr>) = engineInv s"
  by (simp add: engineInv_def)

lemma inv_flags [simp]:
  "engineInv (s\<lparr>gameRunning := a\<rparr>) = engineInv s"
  "engineInv (s\<lparr>gameOver := b\<rparr>) = engineInv s"
  "engineInv (s\<lparr>ghosty := g\<rparr>) = engineInv s"
  "engineInv (s\<lparr>score := n\<rparr>) = engineInv s"
  by (simp_all add: engineInv_def)



























section \<open>The controller: theorems\<close>

subsection \<open>The username gate\<close>

lemma inClass_chars: "\<forall>c. inClass c = (c \<in> set spec_username_chars)"
  by code_simp

lemma lowerChar_spec: "\<forall>c. lowerChar c = spec_lower c"
  by code_simp

lemma matchRepeat_iff:
  "matchRepeat lo hi u \<longleftrightarrow> lo \<le> length u \<and> length u \<le> hi \<and> list_all inClass u"
  by (induction u arbitrary: lo hi) auto

lemma regexTest_iff:
  "regexTest u \<longleftrightarrow> 1 \<le> length u \<and> length u \<le> 20 \<and> set u \<subseteq> set spec_username_chars"
  using inClass_chars by (auto simp: regexTest_def matchRepeat_iff list_all_iff)

lemma startsWith_iff: "startsWith hs nd \<longleftrightarrow> (\<exists>post. hs = nd @ post)"
  by (induction hs nd rule: startsWith.induct) auto

lemma includes_str_iff: "includes_str hs nd \<longleftrightarrow> (\<exists>pre post. hs = pre @ nd @ post)"
proof (induction hs)
  case Nil
  then show ?case by auto
next
  case (Cons h hs)
  show ?case
  proof
    assume "includes_str (h # hs) nd"
    then consider "startsWith (h # hs) nd" | "includes_str hs nd" by auto
    then show "\<exists>pre post. h # hs = pre @ nd @ post"
    proof cases
      case 1
      then obtain post where "h # hs = nd @ post" by (auto simp: startsWith_iff)
      then have "h # hs = [] @ nd @ post" by simp
      then show ?thesis by blast
    next
      case 2
      with Cons.IH obtain pre post where "hs = pre @ nd @ post" by blast
      then have "h # hs = (h # pre) @ nd @ post" by simp
      then show ?thesis by blast
    qed
  next
    assume "\<exists>pre post. h # hs = pre @ nd @ post"
    then obtain pre post where e: "h # hs = pre @ nd @ post" by blast
    show "includes_str (h # hs) nd"
    proof (cases pre)
      case Nil
      with e have "startsWith (h # hs) nd" by (auto simp: startsWith_iff)
      then show ?thesis by simp
    next
      case (Cons p ps)
      with e have "hs = ps @ nd @ post" by simp
      with Cons.IH have "includes_str hs nd" by blast
      then show ?thesis by simp
    qed
  qed
qed

lemma map_contains:
  "(\<exists>pre post. map f u = pre @ m @ post) \<longleftrightarrow> (\<exists>pre v post. u = pre @ v @ post \<and> map f v = m)"
proof
  assume "\<exists>pre post. map f u = pre @ m @ post"
  then obtain pre post where h: "map f u = pre @ (m @ post)" by auto
  then obtain a b where ab: "u = a @ b" "pre = map f a" "m @ post = map f b"
    unfolding map_eq_append_conv by blast
  from ab(3)[symmetric] obtain v z where vz: "b = v @ z" "m = map f v" "post = map f z"
    unfolding map_eq_append_conv by blast
  from ab vz
  have "u = a @ v @ z \<and> map f v = m" by simp
  then show "\<exists>pre v post. u = pre @ v @ post \<and> map f v = m" by blast
next
  assume "\<exists>pre v post. u = pre @ v @ post \<and> map f v = m"
  then obtain pre v post where "u = pre @ v @ post" "map f v = m" by blast
  then have "map f u = map f pre @ m @ map f post" by simp
  then show "\<exists>pre post. map f u = pre @ m @ post" by blast
qed

lemma toLowerCase_spec: "toLowerCase u = map spec_lower u"
  using lowerChar_spec by (simp add: toLowerCase_def)

lemma containsInappropriateContent_iff:
  "containsInappropriateContent u \<longleftrightarrow>
     (\<exists>w \<in> set inappropriateWords. \<exists>pre v post.
        u = pre @ v @ post \<and> spec_same_ignoring_case v w)"
  by (simp add: containsInappropriateContent_def list_ex_iff includes_str_iff toLowerCase_spec
      map_contains spec_same_ignoring_case_def)

lemma isValid_spec: "isValid u = spec_username_ok u"
  by (simp add: isValid_def spec_username_ok_def regexTest_iff containsInappropriateContent_iff)

lemma isValid_examples:
  "isValid ''Player_1'' \<and> \<not> isValid ''admin'' \<and> \<not> isValid ''root2'' \<and> \<not> isValid ''a b'' \<and>
   \<not> isValid []"
  by code_simp

lemma isValid_21: "length u = 21 \<Longrightarrow> \<not> isValid u"
  by (simp add: isValid_def regexTest_iff)


lemmas app_defs = FlappyKiroApp_def showScreen_def selectDifficulty_def updateScore_def
  startUIUpdates_def handleGameOver_def engineCall_def startGame_def validateUsername_def
  submitScore_def submitScoreResolved_def showLeaderboard_def getScore_def getDifficulty_def



lemma submitScore_rejected:
  assumes "\<not> isValid (username a)"
  shows "submitScore now a =
           a\<lparr>borderColor := ''#f44336'', submitDisabled := True,
             appEffects := appEffects a @ [Alert invalidMessage]\<rparr>"
  using assms by (simp add: submitScore_def validateUsername_def Let_def invalidMessage_def)

lemma submitScore_accepted:
  assumes "isValid (username a)" and "game a = Some g"
  shows "submitScore now a =
           a\<lparr>borderColor := ''#4CAF50'', submitDisabled := False,
             pending := pending a @ [\<lparr>sd_username = username a, sd_score = score g,
                                       sd_difficulty = difficulty g, sd_timestamp = now\<rparr>],
             appEffects := appEffects a @ [PostScores \<lparr>sd_username = username a, sd_score = score g,
                                       sd_difficulty = difficulty g, sd_timestamp = now\<rparr>]\<rparr>"
  using assms
  by (simp add: submitScore_def validateUsername_def Let_def getScore_def getDifficulty_def)

text \<open>
  C7. The value \<open>validateUsername\<close> returns for a string is true exactly when the string has 1
  to 20 characters, all of them letters, digits, underscores or hyphens, and contains none of
  the denylisted words as a substring, letter case ignored. \<open>Player_1\<close> is accepted; \<open>admin\<close>,
  \<open>root2\<close>, \<open>a b\<close>, the empty string and every string of 21 characters are rejected.
  \<open>submitScore\<close> validates the current value of the input again: when that value is rejected
  it sends nothing (no submission is added to the pending ones, no request is issued, whether
  or not the button was enabled) and alerts the user; when it is accepted and an engine
  exists, the submission is sent.
\<close>

theorem username_gate:
  "isValid u = spec_username_ok u \<and>
   isValid ''Player_1'' \<and> \<not> isValid ''admin'' \<and> \<not> isValid ''root2'' \<and> \<not> isValid ''a b'' \<and>
   \<not> isValid [] \<and> (length u = 21 \<longrightarrow> \<not> isValid u) \<and>
   fst (validateUsername a) = isValid (username a) \<and>
   (\<not> isValid (username a) \<longrightarrow>
      pending (submitScore now a) = pending a \<and>
      appEffects (submitScore now a) = appEffects a @ [Alert invalidMessage] \<and>
      pending (deliver (SubmitScoreClick now) a) = pending a \<and>
      filter isPostScores (appEffects (deliver (SubmitScoreClick now) a)) =
        filter isPostScores (appEffects a)) \<and>
   (isValid (username a) \<and> game a = Some g \<longrightarrow>
      pending (submitScore now a) =
        pending a @ [\<lparr>sd_username = username a, sd_score = score g,
                      sd_difficulty = difficulty g, sd_timestamp = now\<rparr>])"
proof -
  have 1: "isValid u = spec_username_ok u" by (rule isValid_spec)
  have 2: "length u = 21 \<longrightarrow> \<not> isValid u" by (simp add: isValid_21)
  have 3: "fst (validateUsername a) = isValid (username a)"
    by (simp add: validateUsername_def Let_def)
  have 4: "\<not> isValid (username a) \<longrightarrow>
      pending (submitScore now a) = pending a \<and>
      appEffects (submitScore now a) = appEffects a @ [Alert invalidMessage] \<and>
      pending (deliver (SubmitScoreClick now) a) = pending a \<and>
      filter isPostScores (appEffects (deliver (SubmitScoreClick now) a)) =
        filter isPostScores (appEffects a)"
    by (simp add: submitScore_rejected)
  have 5: "isValid (username a) \<and> game a = Some g \<longrightarrow>
      pending (submitScore now a) =
        pending a @ [\<lparr>sd_username = username a, sd_score = score g,
                      sd_difficulty = difficulty g, sd_timestamp = now\<rparr>]"
    by (simp add: submitScore_accepted)
  from 1 2 3 4 5 isValid_examples show ?thesis by blast
qed

lemma lostApp_eval:
  "currentScreen lostApp = GameOverScreen \<and> username lostApp = ''Player_1'' \<and>
   \<not> submitDisabled lostApp \<and> pending lostApp = [] \<and>
   filter isPostScores (appEffects lostApp) = [] \<and>
   (\<exists>g. game lostApp = Some g \<and> score g = 0 \<and> difficulty g = Some ''medium'' \<and>
         gameOver g \<and> \<not> gameRunning g)"
  by (simp add: lostApp_def app_defs engine_defs) code_simp

lemma submittedApp_eval:
  "username submittedApp = [] \<and> \<not> submitDisabled submittedApp \<and> pending submittedApp = [] \<and>
   filter isPostScores (appEffects submittedApp) =
     [PostScores \<lparr>sd_username = ''Player_1'', sd_score = 0,
                  sd_difficulty = Some ''medium'', sd_timestamp = ''t1''\<rparr>]"
proof -
  obtain g where g: "game lostApp = Some g" "score g = 0" "difficulty g = Some ''medium''"
    using lostApp_eval by blast
  have v: "isValid (username lostApp)" using lostApp_eval isValid_examples by simp
  show ?thesis
    using lostApp_eval
    by (simp add: submittedApp_def submitScore_accepted[OF v g(1)] g submitScoreResolved_def Let_def)
qed

theorem username_gate_witness:
  "isValid ''Player_1'' = spec_username_ok ''Player_1'' \<and> spec_username_ok ''Player_1'' \<and>
   \<not> spec_username_ok ''admin'' \<and>
   \<not> isValid (username submittedApp) \<and> \<not> submitDisabled submittedApp \<and>
   pending (deliver (SubmitScoreClick ''t2'') submittedApp) = pending submittedApp \<and>
   filter isPostScores (appEffects (deliver (SubmitScoreClick ''t2'') submittedApp)) =
     filter isPostScores (appEffects submittedApp) \<and>
   isValid (username lostApp) \<and>
   pending (submitScore ''t1'' lostApp) =
     [\<lparr>sd_username = ''Player_1'', sd_score = 0,
       sd_difficulty = Some ''medium'', sd_timestamp = ''t1''\<rparr>]"
proof -
  obtain g where g: "game lostApp = Some g" "score g = 0" "difficulty g = Some ''medium''"
    using lostApp_eval by blast
  have v: "isValid (username lostApp)" using lostApp_eval isValid_examples by simp
  have nv: "\<not> isValid (username submittedApp)" using submittedApp_eval isValid_examples by simp
  from username_gate[of "''Player_1''" submittedApp "''t2''"] nv
  have a: "isValid ''Player_1'' = spec_username_ok ''Player_1'' \<and> isValid ''Player_1'' \<and>
      pending (deliver (SubmitScoreClick ''t2'') submittedApp) = pending submittedApp \<and>
      filter isPostScores (appEffects (deliver (SubmitScoreClick ''t2'') submittedApp)) =
        filter isPostScores (appEffects submittedApp)"
    by blast
  from username_gate[of "''admin''" lostApp "''t1''" g] v g(1)
  have b: "isValid ''admin'' = spec_username_ok ''admin'' \<and> \<not> isValid ''admin'' \<and>
      pending (submitScore ''t1'' lostApp) =
        pending lostApp @ [\<lparr>sd_username = username lostApp, sd_score = score g,
                      sd_difficulty = difficulty g, sd_timestamp = ''t1''\<rparr>]"
    by blast
  from a have c1: "isValid ''Player_1'' = spec_username_ok ''Player_1''"
    and c2: "spec_username_ok ''Player_1''" by blast+
  from b have c3: "\<not> spec_username_ok ''admin''" by blast
  from b g lostApp_eval have c4: "pending (submitScore ''t1'' lostApp) =
     [\<lparr>sd_username = ''Player_1'', sd_score = 0,
       sd_difficulty = Some ''medium'', sd_timestamp = ''t1''\<rparr>]" by simp
  have c5: "\<not> submitDisabled submittedApp" using submittedApp_eval by blast
  from c1 c2 c3 nv c5 a v c4 show ?thesis by blast
qed


subsection \<open>Submissions in flight\<close>

text \<open>
  C8 (as the code has it). The controller does not look at the submissions in flight: a click
  on the enabled submit button with an accepted username and an engine present sends a
  request and adds it to the pending ones, whatever is pending already, and leaves the
  button enabled, the username and the engine as they were. A disabled button delivers no
  click. The button's \<open>disabled\<close> attribute is the negation of the last validation, and only
  an input into the username field or a submit click changes it.
\<close>

theorem submit_not_gated_by_pending:
  "(\<not> submitDisabled a \<and> isValid (username a) \<and> game a = Some g \<longrightarrow>
      pending (deliver (SubmitScoreClick now) a) =
        pending a @ [\<lparr>sd_username = username a, sd_score = score g,
                      sd_difficulty = difficulty g, sd_timestamp = now\<rparr>] \<and>
      filter isPostScores (appEffects (deliver (SubmitScoreClick now) a)) =
        filter isPostScores (appEffects a) @
          [PostScores \<lparr>sd_username = username a, sd_score = score g,
                       sd_difficulty = difficulty g, sd_timestamp = now\<rparr>] \<and>
      \<not> submitDisabled (deliver (SubmitScoreClick now) a) \<and>
      username (deliver (SubmitScoreClick now) a) = username a \<and>
      game (deliver (SubmitScoreClick now) a) = game a) \<and>
   (submitDisabled a \<longrightarrow> deliver (SubmitScoreClick now) a = a) \<and>
   submitDisabled (snd (validateUsername a)) = (\<not> isValid (username a)) \<and>
   (submitDisabled (deliver ev a) \<noteq> submitDisabled a \<longrightarrow>
      (\<exists>u. ev = UsernameInput u) \<or> (\<exists>t. ev = SubmitScoreClick t))"
proof -
  have 1: "\<not> submitDisabled a \<and> isValid (username a) \<and> game a = Some g \<longrightarrow>
      pending (deliver (SubmitScoreClick now) a) =
        pending a @ [\<lparr>sd_username = username a, sd_score = score g,
                      sd_difficulty = difficulty g, sd_timestamp = now\<rparr>] \<and>
      filter isPostScores (appEffects (deliver (SubmitScoreClick now) a)) =
        filter isPostScores (appEffects a) @
          [PostScores \<lparr>sd_username = username a, sd_score = score g,
                       sd_difficulty = difficulty g, sd_timestamp = now\<rparr>] \<and>
      \<not> submitDisabled (deliver (SubmitScoreClick now) a) \<and>
      username (deliver (SubmitScoreClick now) a) = username a \<and>
      game (deliver (SubmitScoreClick now) a) = game a"
    by (simp add: submitScore_accepted)
  have 2: "submitDisabled a \<longrightarrow> deliver (SubmitScoreClick now) a = a"
    by simp
  have 3: "submitDisabled (snd (validateUsername a)) = (\<not> isValid (username a))"
    by (simp add: validateUsername_def Let_def)
  have hd: "\<And>es b. submitDisabled (handleDispatched es b) = submitDisabled b"
  proof -
    fix es b show "submitDisabled (handleDispatched es b) = submitDisabled b"
      by (induction es b rule: handleDispatched.induct)
         (simp_all add: handleGameOver_def showScreen_def)
  qed
  have 4: "submitDisabled (deliver ev a) \<noteq> submitDisabled a \<longrightarrow>
      (\<exists>u. ev = UsernameInput u) \<or> (\<exists>t. ev = SubmitScoreClick t)"
    by (cases ev)
       (auto simp: hd selectDifficulty_def startGame_def showLeaderboard_def showScreen_def
          engineCall_def updateScore_def startUIUpdates_def submitScoreResolved_def Let_def
          split: option.splits response.splits)
  from 1 2 3 4 show ?thesis by blast
qed

lemma onePendingApp_eval:
  "\<not> submitDisabled onePendingApp \<and> username onePendingApp = ''Player_1'' \<and>
   pending onePendingApp =
     [\<lparr>sd_username = ''Player_1'', sd_score = 0, sd_difficulty = Some ''medium'',
       sd_timestamp = ''t1''\<rparr>] \<and>
   (\<exists>g. game onePendingApp = Some g \<and> score g = 0 \<and> difficulty g = Some ''medium'')"
proof -
  obtain g where g: "game lostApp = Some g" "score g = 0" "difficulty g = Some ''medium''"
    using lostApp_eval by blast
  have v: "isValid (username lostApp)" using lostApp_eval isValid_examples by simp
  show ?thesis
    using lostApp_eval g
    by (simp add: onePendingApp_def submitScore_accepted[OF v g(1)])
qed

theorem submit_not_gated_by_pending_witness:
  "\<not> submitDisabled onePendingApp \<and> isValid (username onePendingApp) \<and>
   game onePendingApp \<noteq> None \<and>
   pending onePendingApp =
     [\<lparr>sd_username = ''Player_1'', sd_score = 0, sd_difficulty = Some ''medium'',
       sd_timestamp = ''t1''\<rparr>] \<and>
   pending (deliver (SubmitScoreClick ''t2'') onePendingApp) =
     [\<lparr>sd_username = ''Player_1'', sd_score = 0, sd_difficulty = Some ''medium'',
       sd_timestamp = ''t1''\<rparr>,
      \<lparr>sd_username = ''Player_1'', sd_score = 0, sd_difficulty = Some ''medium'',
       sd_timestamp = ''t2''\<rparr>] \<and>
   \<not> submitDisabled (deliver (SubmitScoreClick ''t2'') onePendingApp)"
proof -
  obtain g where g: "game onePendingApp = Some g" "score g = 0" "difficulty g = Some ''medium''"
    using onePendingApp_eval by blast
  have v: "isValid (username onePendingApp)" using onePendingApp_eval isValid_examples by simp
  have en: "\<not> submitDisabled onePendingApp" using onePendingApp_eval by blast
  from submit_not_gated_by_pending[of onePendingApp g "''t2''"] en v g(1)
  have "pending (deliver (SubmitScoreClick ''t2'') onePendingApp) =
        pending onePendingApp @ [\<lparr>sd_username = username onePendingApp, sd_score = score g,
                      sd_difficulty = difficulty g, sd_timestamp = ''t2''\<rparr>]"
    and d: "\<not> submitDisabled (deliver (SubmitScoreClick ''t2'') onePendingApp)"
    by blast+
  then have p: "pending (deliver (SubmitScoreClick ''t2'') onePendingApp) =
     [\<lparr>sd_username = ''Player_1'', sd_score = 0, sd_difficulty = Some ''medium'',
       sd_timestamp = ''t1''\<rparr>,
      \<lparr>sd_username = ''Player_1'', sd_score = 0, sd_difficulty = Some ''medium'',
       sd_timestamp = ''t2''\<rparr>]"
    using onePendingApp_eval g by simp
  have ne: "game onePendingApp \<noteq> None" using g by simp
  from en v ne p d onePendingApp_eval show ?thesis by blast
qed

text \<open>
  The statement that a submission is rejected while an earlier one is pending is refuted by two
  clicks on the submit button after a lost game, with \<open>Player_1\<close> as the username and no
  response in between: two requests are issued and both are pending.
\<close>

theorem second_submission_sent_while_pending_counterexample:
  "isValid (username lostApp) \<and>
   pending (deliverAll [SubmitScoreClick ''t1''] lostApp) =
     [\<lparr>sd_username = ''Player_1'', sd_score = 0, sd_difficulty = Some ''medium'',
       sd_timestamp = ''t1''\<rparr>] \<and>
   filter isPostScores (appEffects (deliverAll [SubmitScoreClick ''t1'', SubmitScoreClick ''t2''] lostApp)) =
     [PostScores \<lparr>sd_username = ''Player_1'', sd_score = 0, sd_difficulty = Some ''medium'',
       sd_timestamp = ''t1''\<rparr>,
      PostScores \<lparr>sd_username = ''Player_1'', sd_score = 0, sd_difficulty = Some ''medium'',
       sd_timestamp = ''t2''\<rparr>] \<and>
   pending (deliverAll [SubmitScoreClick ''t1'', SubmitScoreClick ''t2''] lostApp) =
     [\<lparr>sd_username = ''Player_1'', sd_score = 0, sd_difficulty = Some ''medium'',
       sd_timestamp = ''t1''\<rparr>,
      \<lparr>sd_username = ''Player_1'', sd_score = 0, sd_difficulty = Some ''medium'',
       sd_timestamp = ''t2''\<rparr>]"
proof -
  obtain g where g: "game lostApp = Some g" "score g = 0" "difficulty g = Some ''medium''"
    using lostApp_eval by blast
  have v: "isValid (username lostApp)" using lostApp_eval isValid_examples by simp
  let ?a1 = "submitScore ''t1'' lostApp"
  have a1: "username ?a1 = ''Player_1'' \<and> game ?a1 = Some g \<and> \<not> submitDisabled ?a1"
    using lostApp_eval g by (simp add: submitScore_accepted[OF v g(1)])
  then have v1: "isValid (username ?a1)" using isValid_examples by simp
  from a1 have g1: "game ?a1 = Some g" by blast
  show ?thesis
    using lostApp_eval g v a1
    by (simp add: submitScore_accepted[OF v1 g1]) (simp add: submitScore_accepted[OF v g(1)])
qed


subsection \<open>Transitions to the menu\<close>

lemma ended_update:
  "filter isGameEnded (effects (state_of (update r s))) = filter isGameEnded (effects s)"
proof (cases "gameRunning s \<and> \<not> gameOver s")
  case False
  then show ?thesis by (auto simp: update_def)
next
  case True
  show ?thesis
  proof (cases "config s")
    case None
    with True show ?thesis by (simp add: update_def)
  next
    case (Some c)
    obtain es where es: "effects (beforeCheck r c s) = effects s @ es"
        "\<forall>e \<in> set es. \<exists>n. e = ScoreIncreased n"
      using beforeCheck_effects[of r c s] by blast
    from es(2) have "filter isGameEnded es = []"
      by (induction es) auto
    with True Some es(1) show ?thesis
      by (simp add: update_def checkCollisions_effects beforeCheck_def[symmetric])
  qed
qed

lemma ended_gameLoop:
  "filter isGameEnded (effects (state_of (gameLoop r s))) = filter isGameEnded (effects s)"
  using ended_update[of r s]
  by (cases "update r s") (simp_all add: gameLoop_def)

lemma ended_start:
  "filter isGameEnded (effects (state_of (start r s))) = filter isGameEnded (effects s)"
  using ended_gameLoop[of r "(reset s)\<lparr>gameRunning := True, gameOver := False,
           effects := effects (reset s) @ [AddKeydownListener, GameStarted (difficulty (reset s))]\<rparr>"]
  by (simp add: start_def Let_def reset_def)

lemma ended_handleKeyPress:
  "filter isGameEnded (effects (state_of (handleKeyPress code s))) = filter isGameEnded (effects s)"
  by (simp add: handleKeyPress_def jump_def split: option.splits)

lemma handleDispatched_frame:
  "game (handleDispatched es a) = game a \<and>
   (currentScreen (handleDispatched es a) = currentScreen a \<or>
    currentScreen (handleDispatched es a) = GameOverScreen)"
  by (induction es a rule: handleDispatched.induct)
     (auto simp: handleGameOver_def showScreen_def)

lemma engineCall_game: "game (engineCall g out a) = Some (state_of out)"
  using handleDispatched_frame[of "drop (length (effects g)) (effects (state_of out))"
      "a\<lparr>game := Some (state_of out)\<rparr>"]
  by (simp add: engineCall_def)

lemma engineCall_screen:
  "currentScreen (engineCall g out a) = currentScreen a \<or>
   currentScreen (engineCall g out a) = GameOverScreen"
  using handleDispatched_frame[of "drop (length (effects g)) (effects (state_of out))"
      "a\<lparr>game := Some (state_of out)\<rparr>"]
  by (simp add: engineCall_def)

lemma engineCall_menu:
  "currentScreen (engineCall g out a) = Menu \<Longrightarrow> currentScreen a = Menu"
  using engineCall_screen[of g out a] by auto

lemma startGame_frame:
  "(\<exists>g'. game (startGame r a) = Some g' \<and> filter isGameEnded (effects g') = []) \<and>
   (currentScreen (startGame r a) = Game \<or> currentScreen (startGame r a) = GameOverScreen)"
proof -
  let ?g = "setDifficulty (selectedDifficulty a) (FlappyKiroGame (appCanvas a))"
  have e: "filter isGameEnded (effects ?g) = []"
    by (simp add: setDifficulty_def FlappyKiroGame_def reset_def)
  obtain a5 where a5: "startGame r a = engineCall ?g (start r ?g) a5" "currentScreen a5 = Game"
    by (simp add: startGame_def Let_def showScreen_def updateScore_def startUIUpdates_def
        split: option.splits)
  from engineCall_game[of ?g "start r ?g" a5] engineCall_screen[of ?g "start r ?g" a5]
    a5 ended_start[of r ?g] e
  show ?thesis by auto
qed

text \<open>
  C9 (as the code has it). The clicks on \<open>back to menu\<close> and on the leaderboard's \<open>back\<close> show the
  menu from whatever screen is current, the playing and the game-over screen included, and
  do nothing else: the controller keeps its engine reference and the engine is untouched.
  They are the only events that lead from another screen to the menu. No event makes the
  controller call \<open>stop\<close>: the engine it holds after an event is a new one on which \<open>stop\<close> was
  never called, or has had \<open>stop\<close> called on it as often as the engine held before.
\<close>

theorem menu_transitions_keep_engine:
  "deliver BackToMenuClick a = showScreen Menu a \<and>
   deliver BackFromLeaderboardClick a = showScreen Menu a \<and>
   showScreen Menu a = a\<lparr>currentScreen := Menu, appEffects := appEffects a @ [ScreenChanged Menu]\<rparr> \<and>
   currentScreen (showScreen Menu a) = Menu \<and>
   game (showScreen Menu a) = game a \<and>
   (currentScreen a \<noteq> Menu \<and> currentScreen (deliver ev a) = Menu \<longrightarrow>
      ev = BackToMenuClick \<or> ev = BackFromLeaderboardClick) \<and>
   (game (deliver ev a) = Some g' \<longrightarrow>
      filter isGameEnded (effects g') = [] \<or>
      (\<exists>g. game a = Some g \<and> filter isGameEnded (effects g') = filter isGameEnded (effects g)))"
proof -
  have 1: "showScreen Menu a = a\<lparr>currentScreen := Menu, appEffects := appEffects a @ [ScreenChanged Menu]\<rparr>"
    by (simp add: showScreen_def)
  have 2: "currentScreen a \<noteq> Menu \<and> currentScreen (deliver ev a) = Menu \<longrightarrow>
      ev = BackToMenuClick \<or> ev = BackFromLeaderboardClick"
  proof (cases ev)
    case (StartGameClick r)
    then show ?thesis using startGame_frame[of r a] by auto
  next
    case (PlayAgainClick r)
    then show ?thesis using startGame_frame[of r a] by auto
  next
    case (KeyDown code)
    then show ?thesis
      by (auto split: option.splits dest: engineCall_menu)
  next
    case (AnimationFrame r)
    then show ?thesis
      by (auto split: option.splits dest: engineCall_menu)
  qed (auto simp: selectDifficulty_def showLeaderboard_def showScreen_def submitScore_def
        validateUsername_def submitScoreResolved_def Let_def split: option.splits response.splits)
  have 3: "game (deliver ev a) = Some g' \<longrightarrow>
      filter isGameEnded (effects g') = [] \<or>
      (\<exists>g. game a = Some g \<and> filter isGameEnded (effects g') = filter isGameEnded (effects g))"
  proof (cases ev)
    case (StartGameClick r)
    then show ?thesis using startGame_frame[of r a] by auto
  next
    case (PlayAgainClick r)
    then show ?thesis using startGame_frame[of r a] by auto
  next
    case (KeyDown code)
    then show ?thesis
      by (auto simp: engineCall_game ended_handleKeyPress split: option.splits)
  next
    case (AnimationFrame r)
    then show ?thesis
      by (auto simp: engineCall_game ended_gameLoop split: option.splits)
  qed (auto simp: selectDifficulty_def showLeaderboard_def showScreen_def submitScore_def
        validateUsername_def submitScoreResolved_def Let_def split: option.splits response.splits)
  from 1 2 3 show ?thesis by (simp add: showScreen_def)
qed

lemma playingApp_eval:
  "currentScreen playingApp = Game \<and>
   (\<exists>g. game playingApp = Some g \<and> gameRunning g \<and> \<not> gameOver g \<and>
         effects g = [DifficultySet ''medium'', AddKeydownListener, GameStarted (Some ''medium''),
                      Render, RequestAnimationFrame])"
  by (simp add: playingApp_def app_defs engine_defs)

theorem menu_transitions_keep_engine_witness:
  "currentScreen playingApp = Game \<and>
   currentScreen (deliver BackToMenuClick playingApp) = Menu \<and>
   game (deliver BackToMenuClick playingApp) = game playingApp \<and>
   game playingApp \<noteq> None"
proof -
  from menu_transitions_keep_engine[of playingApp BackToMenuClick]
  have "deliver BackToMenuClick playingApp = showScreen Menu playingApp"
    and "currentScreen (showScreen Menu playingApp) = Menu"
    and "game (showScreen Menu playingApp) = game playingApp"
    by blast+
  with playingApp_eval show ?thesis by auto
qed

text \<open>
  The statement that leaving the playing screen calls \<open>stop\<close> and that \<open>back to menu\<close> discards the
  engine is refuted by a controller in the playing screen, whose engine is still running
  and was never stopped after the click, and by a controller in the game-over screen, which
  holds the same engine after the click.
\<close>

theorem back_to_menu_keeps_engine_counterexample:
  "currentScreen playingApp = Game \<and>
   currentScreen (deliver BackToMenuClick playingApp) = Menu \<and>
   map_option gameRunning (game (deliver BackToMenuClick playingApp)) = Some True \<and>
   map_option effects (game (deliver BackToMenuClick playingApp)) =
     Some [DifficultySet ''medium'', AddKeydownListener, GameStarted (Some ''medium''),
           Render, RequestAnimationFrame] \<and>
   currentScreen lostApp = GameOverScreen \<and>
   currentScreen (deliver BackToMenuClick lostApp) = Menu \<and>
   game (deliver BackToMenuClick lostApp) = game lostApp \<and>
   game lostApp \<noteq> None"
  using playingApp_eval lostApp_eval by (auto simp: showScreen_def)

end
